theory Spec2Isabelle
  imports Complex_Main "HOL-Library.AList"
begin

section \<open>Conventions of the embedding\<close>

text \<open>
  The three modules are \<^verbatim>\<open>main.py\<close> (position bookkeeping and the trading loop),
  \<^verbatim>\<open>data_stream.py\<close> (feed handlers, the market store, the user-event handler) and
  \<^verbatim>\<open>signal.py\<close> (the decision function).

  Python floats are idealised as \<^typ>\<open>real\<close>: the model has no rounding. Where numpy
  would answer with an infinity or NaN, the definition says so and gives what the
  source's comparison yields. Strings that the source parses with \<^verbatim>\<open>float(...)\<close>
  arrive already parsed. Module-level dictionaries are passed in and returned. Calls
  to the exchange client are inputs (the reply) and outputs (the list of requests
  that reach the client); logging is left out, except for the warnings of the feed handlers. An
  exception is a value of \<open>py_error\<close>.
\<close>

datatype py_error = KeyError | TypeError | ZeroDivisionError | ValueError

section \<open>Position bookkeeping (main.py, data\_stream.py)\<close>

subsection \<open>Configuration\<close>

definition LEVERAGE :: real where
  "LEVERAGE = 20"

definition RISK_PER_TRADE :: real where
  "RISK_PER_TRADE = 0.9"

definition INITIAL_SL :: real where
  "INITIAL_SL = 0.02"

definition DYNAMIC_SL :: real where
  "DYNAMIC_SL = 0.02"

definition DRY_RUN :: bool where
  "DRY_RUN = False"

definition SIDE_BUY :: string where
  "SIDE_BUY = ''BUY''"

definition SIDE_SELL :: string where
  "SIDE_SELL = ''SELL''"

subsection \<open>The position dictionary\<close>

text \<open>
  The dictionary \<^verbatim>\<open>position\<close> has the keys below; \<^verbatim>\<open>"state"\<close> only ever holds one
  of the strings \<^verbatim>\<open>"none"\<close>, \<^verbatim>\<open>"long"\<close>, \<^verbatim>\<open>"short"\<close>. \<^verbatim>\<open>None\<close> is \<open>None\<close>.
  Both \<^verbatim>\<open>main.py\<close> and \<^verbatim>\<open>data_stream.py\<close> declare such a dictionary at module level,
  with the same initial contents; every function below takes the dictionary of its own
  module as an argument.
\<close>

datatype pstate = none | long | short

record position =
  state :: pstate
  entry_order_id :: "int option"
  stop_order_id :: "int option"
  entry :: "real option"
  qty :: real
  max_pnl :: real
  stop_price :: "real option"

definition initial_position :: position where
  "initial_position =
     \<lparr>state = none, entry_order_id = None, stop_order_id = None, entry = None,
      qty = 0, max_pnl = 0, stop_price = None\<rparr>"

subsection \<open>Requests to the exchange\<close>

datatype exchange_call =
    MarketOrder string real
  | CancelOrder int

text \<open>The dictionary an order function returns, read with \<^verbatim>\<open>.get("status")\<close> and
  \<^verbatim>\<open>.get("orderId")\<close>. A stop order's result has no status.\<close>

record order_result =
  status :: "string option"
  orderId :: "int option"

text \<open>
  \<^verbatim>\<open>place_market_order\<close>: the reply is \<open>Some order\<close> when
  \<^verbatim>\<open>client.futures_create_order\<close> returns, \<open>None\<close> when it raises.
\<close>

definition place_market_order ::
  "string \<Rightarrow> real \<Rightarrow> order_result option \<Rightarrow> order_result \<times> exchange_call list" where
  "place_market_order side q reply =
     (if DRY_RUN then (\<lparr>status = Some ''FILLED'', orderId = None\<rparr>, [])
      else (case reply of
              Some order \<Rightarrow> (order, [MarketOrder side q])
            | None \<Rightarrow> (\<lparr>status = Some ''FAILED'', orderId = None\<rparr>, [MarketOrder side q])))"

text \<open>
  \<^verbatim>\<open>place_stop_order\<close>. With \<^verbatim>\<open>DRY_RUN\<close> off, the \<^verbatim>\<open>try\<close> block evaluates the
  arguments of \<^verbatim>\<open>client.futures_create_order\<close>, among them the name
  \<^verbatim>\<open>ORDER_TYPE_STOP_MARKET\<close>, which \<^verbatim>\<open>main.py\<close> neither imports nor defines: the
  evaluation raises \<^verbatim>\<open>NameError\<close> before the client is called, the handler catches
  it, and the function returns \<^verbatim>\<open>{"orderId": None}\<close>. No request is made.
\<close>

definition place_stop_order ::
  "string \<Rightarrow> real \<Rightarrow> real \<Rightarrow> order_result \<times> exchange_call list" where
  "place_stop_order side q stop =
     (if DRY_RUN then (\<lparr>status = None, orderId = Some 999999\<rparr>, [])
      else (\<lparr>status = None, orderId = None\<rparr>, []))"

text \<open>\<^verbatim>\<open>not order_id\<close> holds for \<^verbatim>\<open>None\<close> and for \<^verbatim>\<open>0\<close>.\<close>

definition cancel_stop_order :: "int option \<Rightarrow> exchange_call list" where
  "cancel_stop_order order_id =
     (if DRY_RUN \<or> order_id = None \<or> order_id = Some 0 then []
      else [CancelOrder (the order_id)])"

subsection \<open>Order size\<close>

text \<open>\<^verbatim>\<open>round(x, 3)\<close>: to the nearest multiple of \<open>1/1000\<close>, a tie to the even one.\<close>

definition round_half_even :: "real \<Rightarrow> int" where
  "round_half_even x =
     (let f = \<lfloor>x\<rfloor>; d = x - of_int f
      in if d < 1 / 2 then f else if 1 / 2 < d then f + 1
         else if even f then f else f + 1)"

definition round3 :: "real \<Rightarrow> real" where
  "round3 x = of_int (round_half_even (x * 1000)) / 1000"

definition calc_qty :: "real \<Rightarrow> real \<Rightarrow> py_error + real" where
  "calc_qty balance price =
     (let risk_amount = balance * RISK_PER_TRADE
      in if price = 0 then Inl ZeroDivisionError
         else Inr (round3 ((risk_amount * LEVERAGE) / price)))"

subsection \<open>Entering and closing (main.py)\<close>

text \<open>
  \<^verbatim>\<open>enter_position\<close>: \<open>price\<close> is the ticker price it fetches, \<open>balance\<close> what
  \<^verbatim>\<open>fetch_balance\<close> returns, \<open>reply\<close> the exchange's answer to the market order.
  The result is the dictionary afterwards and the requests made. The source's argument
  \<^verbatim>\<open>snapshot\<close> is not read, and \<^verbatim>\<open>close_position\<close> only logs its argument
  \<^verbatim>\<open>current_price\<close>.
\<close>

definition enter_position ::
  "position \<Rightarrow> string \<Rightarrow> real \<Rightarrow> real \<Rightarrow> order_result option
     \<Rightarrow> py_error + (position \<times> exchange_call list)" where
  "enter_position pos signal price balance reply =
     (case calc_qty balance price of
        Inl err \<Rightarrow> Inl err
      | Inr q \<Rightarrow>
          if q * price < 20 then Inr (pos, [])
          else
            (let side = (if signal = ''BUY'' then SIDE_BUY else SIDE_SELL);
                 (res, calls) = place_market_order side q reply
             in if status res = Some ''FAILED'' then Inr (pos, calls)
                else Inr (pos\<lparr>entry_order_id := orderId res\<rparr>, calls)))"

definition close_position ::
  "position \<Rightarrow> order_result option \<Rightarrow> position \<times> exchange_call list" where
  "close_position pos reply =
     (if state pos = none then (pos, [])
      else
        (let side = (if state pos = long then SIDE_SELL else SIDE_BUY);
             q = qty pos;
             (res, calls) = place_market_order side q reply
         in if status res = Some ''FAILED'' then (pos, calls)
            else (pos\<lparr>state := none, entry := None, qty := 0, max_pnl := 0,
                       stop_price := None, stop_order_id := None, entry_order_id := None\<rparr>,
                  calls @ cancel_stop_order (stop_order_id pos))))"

subsection \<open>The trailing stop (main.py)\<close>

text \<open>
  \<^verbatim>\<open>update_trailing_stop\<close>. With \<^verbatim>\<open>entry\<close> unset the subtraction raises
  \<^verbatim>\<open>TypeError\<close>; with a zero quantity the division raises \<^verbatim>\<open>ZeroDivisionError\<close>,
  after \<^verbatim>\<open>max_pnl\<close> has been written: an error carries the dictionary as the
  exception leaves it.
\<close>

definition update_trailing_stop ::
  "position \<Rightarrow> real \<Rightarrow> (py_error \<times> position) + (position \<times> exchange_call list)" where
  "update_trailing_stop pos current_price =
     (if state pos = none then Inr (pos, [])
      else
        (case entry pos of
           None \<Rightarrow> Inl (TypeError, pos)
         | Some en \<Rightarrow>
             (let q = qty pos;
                  pnl = (if state pos = long then (current_price - en) * q * LEVERAGE
                         else (en - current_price) * q * LEVERAGE)
              in if max_pnl pos < pnl then
                   (let pos1 = pos\<lparr>max_pnl := pnl\<rparr>;
                        trail_pnl = pnl * (1 - DYNAMIC_SL)
                    in if q * LEVERAGE = 0 then Inl (ZeroDivisionError, pos1)
                       else
                         (let price_diff = trail_pnl / (q * LEVERAGE);
                              new_stop = (if state pos = long then en + price_diff
                                          else en - price_diff)
                          in if Some new_stop \<noteq> stop_price pos1 then
                               (let stop_side = (if state pos = long then SIDE_SELL else SIDE_BUY);
                                    (stop_res, calls) = place_stop_order stop_side q new_stop
                                in Inr (pos1\<lparr>stop_price := Some new_stop,
                                              stop_order_id := orderId stop_res\<rparr>,
                                        cancel_stop_order (stop_order_id pos1) @ calls))
                             else Inr (pos1, [])))
                 else Inr (pos, []))))"

subsection \<open>The user-event handler (data\_stream.py)\<close>

text \<open>
  The order of an \<^verbatim>\<open>ORDER_TRADE_UPDATE\<close>: \<^verbatim>\<open>i\<close> the order id, \<^verbatim>\<open>X\<close> the status,
  \<^verbatim>\<open>S\<close> the side, \<^verbatim>\<open>z\<close> the cumulative filled quantity, \<^verbatim>\<open>ap\<close> the average price.
\<close>

record order_update =
  o_i :: int
  o_X :: string
  o_S :: string
  o_z :: real
  o_ap :: real

record user_msg =
  msg_e :: string
  msg_o :: order_update

text \<open>A command is the tuple \<^verbatim>\<open>('place_stop_order', side, qty, stop_price)\<close>.\<close>

type_synonym command = "string \<times> string \<times> real \<times> real"

definition user_handler ::
  "position \<Rightarrow> command list \<Rightarrow> user_msg \<Rightarrow> position \<times> command list" where
  "user_handler pos command_queue msg =
     (if msg_e msg = ''ORDER_TRADE_UPDATE'' then
        (let order = msg_o msg; order_id = o_i order; st = o_X order
         in if st = ''FILLED'' then
              (if Some order_id = entry_order_id pos then
                 (let side = o_S order; q = o_z order; entry_price = o_ap order;
                      stop = entry_price * (if side = ''BUY'' then 1 - 0.02 else 1 + 0.02);
                      stop_side = (if side = ''BUY'' then ''SELL'' else ''BUY'')
                  in (pos\<lparr>state := (if side = ''BUY'' then long else short),
                           entry := Some entry_price, qty := q, max_pnl := 0\<rparr>,
                      command_queue @ [(''place_stop_order'', stop_side, q, stop)]))
               else if Some order_id = stop_order_id pos then
                 (pos\<lparr>state := none, entry := None, qty := 0, max_pnl := 0,
                      stop_price := None, stop_order_id := None, entry_order_id := None\<rparr>,
                  command_queue)
               else (pos, command_queue))
            else (pos, command_queue))
      else (pos, command_queue))"

subsection \<open>Draining the command queue (run\_trading)\<close>

definition apply_command :: "position \<Rightarrow> command \<Rightarrow> position \<times> exchange_call list" where
  "apply_command pos cmd =
     (case cmd of (tag, side, q, stop) \<Rightarrow>
        if tag = ''place_stop_order'' then
          (let (stop_res, calls) = place_stop_order side q stop
           in (pos\<lparr>stop_price := Some stop, stop_order_id := orderId stop_res\<rparr>, calls))
        else (pos, []))"

subsection \<open>Runs of the trailing stop\<close>

text \<open>
  Successive calls of \<^verbatim>\<open>update_trailing_stop\<close>, each with the price it is given:
  the dictionary after each call. A call that raises ends the run.
\<close>

fun run_trailing :: "position \<Rightarrow> real list \<Rightarrow> position list" where
  "run_trailing pos [] = []"
| "run_trailing pos (current_price # rest) =
     (case update_trailing_stop pos current_price of
        Inl _ \<Rightarrow> []
      | Inr (pos', _) \<Rightarrow> pos' # run_trailing pos' rest)"

text \<open>
  A stop price followed by a later one, seen from a long position (the stop may only
  rise) or a short one (it may only fall). A stop once recorded is never unset.
\<close>

definition never_against :: "pstate \<Rightarrow> real option \<Rightarrow> real option \<Rightarrow> bool" where
  "never_against st old new =
     (case old of
        None \<Rightarrow> True
      | Some a \<Rightarrow> (case new of None \<Rightarrow> False
                   | Some b \<Rightarrow> if st = long then a \<le> b else b \<le> a))"

text \<open>
  The stop that \<^verbatim>\<open>update_trailing_stop\<close> computes from a PnL equal to the recorded
  \<^verbatim>\<open>max_pnl\<close>.
\<close>

definition ratchet_level :: "position \<Rightarrow> real \<Rightarrow> real" where
  "ratchet_level pos en =
     (let price_diff = max_pnl pos * (1 - DYNAMIC_SL) / (qty pos * LEVERAGE)
      in if state pos = long then en + price_diff else en - price_diff)"

text \<open>
  An open position as fills and the trailing stop leave it: long or short, a positive
  quantity, an entry price, and a recorded stop (if any) that is not beyond the level
  its \<^verbatim>\<open>max_pnl\<close> stands for.
\<close>

definition open_position :: "position \<Rightarrow> bool" where
  "open_position pos =
     (state pos \<noteq> none \<and> 0 < qty pos \<and>
      (case entry pos of
         None \<Rightarrow> False
       | Some en \<Rightarrow> never_against (state pos) (stop_price pos) (Some (ratchet_level pos en))))"

subsection \<open>States of a position dictionary\<close>

text \<open>
  The exchange reports a filled order with a positive cumulative quantity and a positive
  average price.
\<close>

definition exchange_event :: "user_msg \<Rightarrow> bool" where
  "exchange_event msg =
     (o_X (msg_o msg) = ''FILLED'' \<longrightarrow> 0 < o_z (msg_o msg) \<and> 0 < o_ap (msg_o msg))"

text \<open>
  Every write to a position dictionary is made by one of the functions above. The
  relation holds of the initial dictionary and of whatever any of them makes of a
  dictionary it holds of, for any argument and any reply of the exchange: it covers
  the states of the dictionary of either module, under every interleaving of the
  trading loop and the user-event callback.
\<close>

inductive reachable :: "position \<Rightarrow> bool" where
  start: "reachable initial_position"
| user_event:
    "reachable pos \<Longrightarrow> exchange_event msg \<Longrightarrow> user_handler pos cq msg = (pos', cq')
       \<Longrightarrow> reachable pos'"
| command:
    "reachable pos \<Longrightarrow> apply_command pos cmd = (pos', calls) \<Longrightarrow> reachable pos'"
| trailing:
    "reachable pos \<Longrightarrow> update_trailing_stop pos current_price = Inr (pos', calls)
       \<Longrightarrow> reachable pos'"
| trailing_raised:
    "reachable pos \<Longrightarrow> update_trailing_stop pos current_price = Inl (err, pos')
       \<Longrightarrow> reachable pos'"
| enter:
    "reachable pos \<Longrightarrow> enter_position pos signal price balance mreply = Inr (pos', calls)
       \<Longrightarrow> reachable pos'"
| close:
    "reachable pos \<Longrightarrow> close_position pos mreply = (pos', calls) \<Longrightarrow> reachable pos'"

section \<open>The market store (data\_stream.py)\<close>

subsection \<open>Messages of the feeds\<close>

text \<open>
  A message is a dictionary; \<^verbatim>\<open>e\<close> is its event-type tag. Of a depth update the source
  reads \<^verbatim>\<open>b\<close>, \<^verbatim>\<open>a\<close> (price and quantity pairs) and \<^verbatim>\<open>u\<close>; of a trade \<^verbatim>\<open>p\<close>, \<^verbatim>\<open>q\<close>,
  \<^verbatim>\<open>m\<close> and \<^verbatim>\<open>T\<close> (milliseconds); of a ticker \<^verbatim>\<open>P\<close>, which may be absent.
\<close>

record depth_msg =
  dm_e :: string
  dm_b :: "(real \<times> real) list"
  dm_a :: "(real \<times> real) list"
  dm_u :: int

record trade_msg =
  tm_e :: string
  tm_p :: real
  tm_q :: real
  tm_m :: bool
  tm_T :: int

record ticker_msg =
  km_e :: string
  km_P :: "real option"

subsection \<open>Feed handlers and the ingestion queues\<close>

definition MAX_QUEUE :: nat where
  "MAX_QUEUE = 1000"

text \<open>\<^verbatim>\<open>Queue(MAX_QUEUE).put_nowait\<close>: \<open>None\<close> is the exception \<^verbatim>\<open>queue.Full\<close>.\<close>

definition put_nowait :: "'a list \<Rightarrow> 'a \<Rightarrow> 'a list option" where
  "put_nowait q msg = (if MAX_QUEUE \<le> length q then None else Some (q @ [msg]))"

text \<open>A handler returns its queue and the warnings it logs.\<close>

definition depth_handler :: "depth_msg list \<Rightarrow> depth_msg \<Rightarrow> depth_msg list \<times> string list" where
  "depth_handler depth_queue msg =
     (if dm_e msg \<noteq> ''depthUpdate'' then (depth_queue, [])
      else (case put_nowait depth_queue msg of
              Some q' \<Rightarrow> (q', [])
            | None \<Rightarrow> (depth_queue, [''Depth queue full, message dropped.''])))"

definition trade_handler :: "trade_msg list \<Rightarrow> trade_msg \<Rightarrow> trade_msg list \<times> string list" where
  "trade_handler trade_queue msg =
     (case put_nowait trade_queue msg of
        Some q' \<Rightarrow> (q', [])
      | None \<Rightarrow> (trade_queue, [''Trade queue full, message dropped.'']))"

definition aggtrade_handler :: "trade_msg list \<Rightarrow> trade_msg \<Rightarrow> trade_msg list \<times> string list" where
  "aggtrade_handler aggtrade_queue msg =
     (case put_nowait aggtrade_queue msg of
        Some q' \<Rightarrow> (q', [])
      | None \<Rightarrow> (aggtrade_queue, [''AggTrade queue full, message dropped.'']))"

definition ticker_handler :: "ticker_msg list \<Rightarrow> ticker_msg \<Rightarrow> ticker_msg list \<times> string list" where
  "ticker_handler ticker_queue msg =
     (case put_nowait ticker_queue msg of
        Some q' \<Rightarrow> (q', [])
      | None \<Rightarrow> (ticker_queue, [''Ticker queue full, message dropped.'']))"

subsection \<open>Contents of the store\<close>

record trade =
  t_price :: real
  t_qty :: real
  t_is_buyer_maker :: bool
  t_time :: int
  t_side :: string

record bucket =
  b_time :: int
  b_volume :: real

text \<open>
  The dictionary \<^verbatim>\<open>state\<close>, by value. A Python dictionary keeps its keys in the order of
  their first insertion: an association list. The two deques are lists, oldest first.
\<close>

record market =
  bids :: "(real \<times> real) list"
  asks :: "(real \<times> real) list"
  last_update_id :: int
  trades :: "trade list"
  volume_history :: "bucket list"
  ticker_pct :: real

definition initial_state :: market where
  "initial_state =
     \<lparr>bids = [], asks = [], last_update_id = 0, trades = [], volume_history = [],
      ticker_pct = 0\<rparr>"

text \<open>\<^verbatim>\<open>deque(maxlen=n).append(x)\<close>: a full deque drops its oldest element.\<close>

definition deque_append :: "nat \<Rightarrow> 'a list \<Rightarrow> 'a \<Rightarrow> 'a list" where
  "deque_append maxlen xs x = (let ys = xs @ [x] in drop (length ys - maxlen) ys)"

subsection \<open>Consumers\<close>

text \<open>\<^verbatim>\<open>d[k] = v\<close> for each pair, in order.\<close>

fun assign_levels :: "(real \<times> real) list \<Rightarrow> (real \<times> real) list \<Rightarrow> (real \<times> real) list" where
  "assign_levels d [] = d"
| "assign_levels d ((price, q) # rest) = assign_levels (AList.update price q d) rest"

definition process_depth :: "market \<Rightarrow> depth_msg \<Rightarrow> market" where
  "process_depth st msg =
     st\<lparr>bids := assign_levels (bids st) (dm_b msg),
        asks := assign_levels (asks st) (dm_a msg),
        last_update_id := dm_u msg\<rparr>"

text \<open>
  \<^verbatim>\<open>_update_volumes_locked\<close>: \<open>now\<close> is what \<^verbatim>\<open>time.time()\<close> returns, the seconds of
  the local clock; \<^verbatim>\<open>int(time.time() // 60) * 60\<close> is the start of its minute.
\<close>

definition current_minute :: "real \<Rightarrow> int" where
  "current_minute now = \<lfloor>now / 60\<rfloor> * 60"

definition update_volumes_locked :: "market \<Rightarrow> real \<Rightarrow> market" where
  "update_volumes_locked st now =
     (let current_time = current_minute now;
          current_volume =
            sum_list (map t_qty (filter (\<lambda>tr. current_time \<le> t_time tr div 1000) (trades st)))
      in if volume_history st \<noteq> [] \<and> b_time (last (volume_history st)) = current_time
         then st\<lparr>volume_history :=
                   butlast (volume_history st)
                     @ [(last (volume_history st))\<lparr>b_volume := current_volume\<rparr>]\<rparr>
         else st\<lparr>volume_history :=
                   deque_append 20 (volume_history st)
                     \<lparr>b_time = current_time, b_volume = current_volume\<rparr>\<rparr>)"

definition trade_of :: "trade_msg \<Rightarrow> trade" where
  "trade_of msg =
     \<lparr>t_price = tm_p msg, t_qty = tm_q msg, t_is_buyer_maker = tm_m msg, t_time = tm_T msg,
      t_side = (if tm_m msg then ''SELL'' else ''BUY'')\<rparr>"

text \<open>
  One turn of the loop of \<^verbatim>\<open>_process_trades\<close>, and of \<^verbatim>\<open>_process_aggtrades\<close>, which
  has the same body: the trade is appended and the volumes are recomputed under one
  hold of the lock.
\<close>

definition process_trades :: "market \<Rightarrow> trade_msg \<Rightarrow> real \<Rightarrow> market" where
  "process_trades st msg now =
     update_volumes_locked (st\<lparr>trades := deque_append 100 (trades st) (trade_of msg)\<rparr>) now"

definition process_aggtrades :: "market \<Rightarrow> trade_msg \<Rightarrow> real \<Rightarrow> market" where
  "process_aggtrades st msg now =
     update_volumes_locked (st\<lparr>trades := deque_append 100 (trades st) (trade_of msg)\<rparr>) now"

definition process_ticker :: "market \<Rightarrow> ticker_msg \<Rightarrow> market" where
  "process_ticker st msg = st\<lparr>ticker_pct := (case km_P msg of Some pct \<Rightarrow> pct | None \<Rightarrow> 0)\<rparr>"

text \<open>
  Trade events as the two consumers apply them, one after the other: the stream a
  message came from, the message, and the local clock when its volumes are recomputed.
\<close>

datatype stream = TradeStream | AggTradeStream

fun apply_trade_event :: "market \<Rightarrow> stream \<times> trade_msg \<times> real \<Rightarrow> market" where
  "apply_trade_event st (TradeStream, msg, now) = process_trades st msg now"
| "apply_trade_event st (AggTradeStream, msg, now) = process_aggtrades st msg now"

definition run_trade_events :: "market \<Rightarrow> (stream \<times> trade_msg \<times> real) list \<Rightarrow> market" where
  "run_trade_events st evs = foldl apply_trade_event st evs"

text \<open>The last \<open>n\<close> elements of a list.\<close>

definition lastn :: "nat \<Rightarrow> 'a list \<Rightarrow> 'a list" where
  "lastn n xs = drop (length xs - n) xs"

text \<open>Of a sequence of trade events: the clock readings, their minutes, the trades.\<close>

definition event_minutes :: "(stream \<times> trade_msg \<times> real) list \<Rightarrow> int list" where
  "event_minutes evs = map (\<lambda>(s, msg, now). current_minute now) evs"

definition event_trades :: "(stream \<times> trade_msg \<times> real) list \<Rightarrow> trade list" where
  "event_trades evs = map (\<lambda>(s, msg, now). trade_of msg) evs"

definition event_clock :: "(stream \<times> trade_msg \<times> real) list \<Rightarrow> real list" where
  "event_clock evs = map (\<lambda>(s, msg, now). now) evs"

text \<open>The start, in seconds, of the minute in which the timestamp of a trade lies.\<close>

definition trade_minute :: "trade \<Rightarrow> int" where
  "trade_minute tr = t_time tr div 1000 div 60 * 60"

section \<open>The decision function (signal.py)\<close>

subsection \<open>Data frames\<close>

text \<open>
  A \<^verbatim>\<open>DataFrame\<close> as the decision function reads it: the names of its columns and its
  rows. A row is a record with a field for every column the kind of frame may have; a
  column can be read when its name is among \<open>columns\<close>. \<^verbatim>\<open>df.empty\<close> holds when the
  frame has no column or no row; \<^verbatim>\<open>df[name]\<close> raises \<^verbatim>\<open>KeyError\<close> for a name that
  is not a column.
\<close>

record 'r frame =
  columns :: "string list"
  rows :: "'r list"

definition frame_empty :: "'r frame \<Rightarrow> bool" where
  "frame_empty df = (columns df = [] \<or> rows df = [])"

definition getcol :: "'r frame \<Rightarrow> string \<Rightarrow> ('r \<Rightarrow> 'a) \<Rightarrow> py_error + 'a list" where
  "getcol df name field =
     (if name \<in> set (columns df) then Inr (map field (rows df)) else Inl KeyError)"

text \<open>What follows an expression that may raise.\<close>

definition bind_err :: "py_error + 'a \<Rightarrow> ('a \<Rightarrow> py_error + 'b) \<Rightarrow> py_error + 'b" where
  "bind_err r f = (case r of Inl err \<Rightarrow> Inl err | Inr x \<Rightarrow> f x)"

text \<open>A row of the order-book frame that the trading loop builds.\<close>

record level_row =
  lr_price :: real
  lr_bid_qty :: real
  lr_ask_price :: real
  lr_ask_qty :: real

text \<open>
  \<^verbatim>\<open>pd.DataFrame(records)\<close> of a list of dictionaries with the same keys: the keys are
  the columns, and an empty list gives a frame with no column.
\<close>

definition DataFrame :: "string list \<Rightarrow> 'r list \<Rightarrow> 'r frame" where
  "DataFrame keys records = \<lparr>columns = (if records = [] then [] else keys), rows = records\<rparr>"

definition trade_keys :: "string list" where
  "trade_keys = [''price'', ''qty'', ''is_buyer_maker'', ''time'', ''side'']"

definition bucket_keys :: "string list" where
  "bucket_keys = [''time'', ''volume'']"

subsection \<open>Metrics\<close>

text \<open>
  The quotient of two sums. A division by zero, which numpy answers with an infinity or
  NaN and a warning, is the error \<open>ZeroDivisionError\<close>.
\<close>

definition divide_sums :: "real \<Rightarrow> real \<Rightarrow> py_error + real" where
  "divide_sums a b = (if b = 0 then Inl ZeroDivisionError else Inr (a / b))"

definition order_book_pressure :: "level_row frame \<Rightarrow> py_error + real" where
  "order_book_pressure df =
     bind_err (getcol df ''bid_qty'' lr_bid_qty) (\<lambda>bid_col.
     bind_err (getcol df ''ask_qty'' lr_ask_qty) (\<lambda>ask_col.
       (let bid_volume = sum_list bid_col; ask_volume = sum_list ask_col
        in if ask_volume = 0 then Inr 1
           else divide_sums bid_volume ask_volume)))"

text \<open>
  \<^verbatim>\<open>trades_df[trades_df["side"] == s]["qty"].sum()\<close>: the column \<^verbatim>\<open>side\<close> is read
  first, then \<^verbatim>\<open>qty\<close> of the selected rows.
\<close>

definition side_qty_sum :: "trade frame \<Rightarrow> string \<Rightarrow> py_error + real" where
  "side_qty_sum trades_df s =
     bind_err (getcol trades_df ''side'' t_side) (\<lambda>side_col.
       (let selected = trades_df\<lparr>rows := filter (\<lambda>tr. t_side tr = s) (rows trades_df)\<rparr>
        in bind_err (getcol selected ''qty'' t_qty) (\<lambda>qty_col. Inr (sum_list qty_col))))"

definition trade_dominance :: "trade frame \<Rightarrow> py_error + real" where
  "trade_dominance trades_df =
     (if frame_empty trades_df then Inr 1
      else
        bind_err (side_qty_sum trades_df ''BUY'') (\<lambda>buys.
        bind_err (side_qty_sum trades_df ''SELL'') (\<lambda>sells.
          if sells = 0 then Inr 1
          else divide_sums buys sells)))"

definition mean :: "real list \<Rightarrow> real" where
  "mean xs = sum_list xs / real (length xs)"

text \<open>\<^verbatim>\<open>std(ddof=0)\<close>: the population standard deviation.\<close>

definition std0 :: "real list \<Rightarrow> real" where
  "std0 xs = sqrt (mean (map (\<lambda>x. (x - mean xs)\<^sup>2) xs))"

definition volume_trend :: "bucket frame \<Rightarrow> real" where
  "volume_trend volume_df =
     (if frame_empty volume_df \<or> ''volume'' \<notin> set (columns volume_df) then 0
      else
        (let volumes = map b_volume (rows volume_df)
         in if std0 volumes = 0 then 0
            else (last volumes - mean volumes) / std0 volumes))"

subsection \<open>Indicators\<close>

text \<open>
  \<^verbatim>\<open>ewm(span=n, adjust=False).mean()\<close>: the first value is the first price, each
  later one is \<open>(1 - \<alpha>) * previous + \<alpha> * price\<close> with \<open>\<alpha> = 2 / (n + 1)\<close>. The
  function gives the last value of the series, which is all the decision reads.
\<close>

fun ema_from :: "real \<Rightarrow> real \<Rightarrow> real list \<Rightarrow> real" where
  "ema_from \<alpha> y [] = y"
| "ema_from \<alpha> y (x # xs) = ema_from \<alpha> ((1 - \<alpha>) * y + \<alpha> * x) xs"

definition calculate_ema_last :: "real list \<Rightarrow> nat \<Rightarrow> real" where
  "calculate_ema_last series n = ema_from (2 / (real n + 1)) (hd series) (tl series)"

text \<open>
  The last value of \<^verbatim>\<open>calculate_rsi\<close>, \<open>None\<close> for NaN. The difference series starts
  with NaN, and a rolling mean over 14 is NaN until its window holds 14 numbers: with
  fewer than 15 prices the value is NaN. A zero average loss makes \<^verbatim>\<open>rs\<close> infinite
  (the value is then 100) or, with a zero average gain, NaN.
\<close>

fun diffs :: "real list \<Rightarrow> real list" where
  "diffs (x # y # rest) = (y - x) # diffs (y # rest)"
| "diffs _ = []"

definition calculate_rsi_last :: "real list \<Rightarrow> nat \<Rightarrow> real option" where
  "calculate_rsi_last prices period =
     (if length prices < period + 1 then None
      else
        (let delta = lastn period (diffs prices);
             avg_gain = mean (map (\<lambda>d. max d 0) delta);
             avg_loss = mean (map (\<lambda>d. - min d 0) delta)
         in if avg_loss = 0 then (if avg_gain = 0 then None else Some 100)
            else Some (100 - 100 / (1 + avg_gain / avg_loss))))"

text \<open>
  \<^verbatim>\<open>calculate_vwap\<close> divides two sums; with a zero sum of quantities the quotient is
  an infinity with the sign of the numerator, or NaN. The two comparisons the decision
  makes with it, where a comparison with NaN is false.
\<close>

definition above_vwap :: "real \<Rightarrow> trade list \<Rightarrow> bool" where
  "above_vwap latest_price trs =
     (let num = sum_list (map (\<lambda>tr. t_price tr * t_qty tr) trs);
          den = sum_list (map t_qty trs)
      in if den = 0 then num < 0 else num / den < latest_price)"

definition below_vwap :: "real \<Rightarrow> trade list \<Rightarrow> bool" where
  "below_vwap latest_price trs =
     (let num = sum_list (map (\<lambda>tr. t_price tr * t_qty tr) trs);
          den = sum_list (map t_qty trs)
      in if den = 0 then 0 < num else latest_price < num / den)"

subsection \<open>Signal logic\<close>

datatype signal = BUY | SELL | HOLD

text \<open>
  \<^verbatim>\<open>generate_signal\<close>. The value of \<^verbatim>\<open>calculate_atr\<close> is computed and not used, and
  neither are \<^verbatim>\<open>volumes\<close> and \<^verbatim>\<open>ticker_pct\<close>; reading \<^verbatim>\<open>volume_df["volume"]\<close>
  for \<^verbatim>\<open>volumes\<close> can raise.
\<close>

definition generate_signal ::
  "level_row frame \<Rightarrow> trade frame \<Rightarrow> bucket frame \<Rightarrow> real \<Rightarrow> py_error + signal" where
  "generate_signal df trades_df volume_df ticker_data =
     (if frame_empty df \<or> frame_empty trades_df then Inr HOLD
      else
        bind_err (order_book_pressure df) (\<lambda>ob_ratio.
        bind_err (trade_dominance trades_df) (\<lambda>trade_ratio.
        bind_err (getcol volume_df ''volume'' b_volume) (\<lambda>volumes.
        bind_err (getcol trades_df ''price'' t_price) (\<lambda>price_col.
          (let prices = lastn 100 price_col;
               last_fast = calculate_ema_last prices 12;
               last_slow = calculate_ema_last prices 26;
               rsi = calculate_rsi_last prices 14
           in bind_err (getcol trades_df ''qty'' t_qty) (\<lambda>qty_col.
             (let latest_price = last prices;
                  vol_score = volume_trend volume_df
              in if 1.3 < ob_ratio \<and> 1.2 < trade_ratio \<and> 0.5 < vol_score
                    \<and> last_slow < last_fast
                    \<and> (case rsi of None \<Rightarrow> False | Some r \<Rightarrow> r < 70)
                    \<and> above_vwap latest_price (rows trades_df)
                 then Inr BUY
                 else if ob_ratio < 0.7 \<and> trade_ratio < 0.8 \<and> vol_score < - 0.5
                    \<and> last_fast < last_slow
                    \<and> (case rsi of None \<Rightarrow> False | Some r \<Rightarrow> 30 < r)
                    \<and> below_vwap latest_price (rows trades_df)
                 then Inr SELL
                 else Inr HOLD))))))))"

subsection \<open>The inputs the trading loop passes (run\_trading)\<close>

text \<open>What \<^verbatim>\<open>get_snapshot\<close> returns, by value.\<close>

record snapshot =
  s_bids :: "(real \<times> real) list"
  s_asks :: "(real \<times> real) list"
  s_trades :: "trade list"
  s_volume_history :: "bucket list"
  s_ticker_pct :: real

text \<open>
  \<^verbatim>\<open>pd.DataFrame\<close> of the four lists: columns of unequal length raise \<^verbatim>\<open>ValueError\<close>.
\<close>

definition level_frame ::
  "real list \<Rightarrow> real list \<Rightarrow> real list \<Rightarrow> real list \<Rightarrow> py_error + level_row frame" where
  "level_frame price_col bid_qty_col ask_price_col ask_qty_col =
     (if length bid_qty_col = length price_col \<and> length ask_price_col = length price_col
         \<and> length ask_qty_col = length price_col
      then Inr \<lparr>columns = [''price'', ''bid_qty'', ''ask_price'', ''ask_qty''],
                rows = map (\<lambda>i. \<lparr>lr_price = price_col ! i, lr_bid_qty = bid_qty_col ! i,
                                  lr_ask_price = ask_price_col ! i, lr_ask_qty = ask_qty_col ! i\<rparr>)
                         [0..<length price_col]\<rparr>
      else Inl ValueError)"

text \<open>
  The part of an iteration of \<^verbatim>\<open>run_trading\<close> from the snapshot to the call of the
  decision function: the two sides as lists of items, cut to the shorter of the two,
  the frames, the signal. (A snapshot always has both sides, so the iteration is not
  skipped.)
\<close>

definition truncated_levels ::
  "snapshot \<Rightarrow> (real \<times> real) list \<times> (real \<times> real) list" where
  "truncated_levels snap =
     (let bids0 = s_bids snap; asks0 = s_asks snap;
          min_len = min (length bids0) (length asks0)
      in (take min_len bids0, take min_len asks0))"

definition decision_frame :: "snapshot \<Rightarrow> py_error + level_row frame" where
  "decision_frame snap =
     (case truncated_levels snap of (bids1, asks1) \<Rightarrow>
        level_frame (map fst bids1) (map snd bids1) (map fst asks1) (map snd asks1))"

definition loop_signal :: "snapshot \<Rightarrow> py_error + signal" where
  "loop_signal snap =
     bind_err (decision_frame snap) (\<lambda>df.
       (let trades_df = DataFrame trade_keys (s_trades snap);
            volume_df = DataFrame bucket_keys (s_volume_history snap)
        in generate_signal df trades_df volume_df (s_ticker_pct snap)))"

section \<open>The objects of the store and the snapshot (data\_stream.py)\<close>

text \<open>
  \<^verbatim>\<open>get_snapshot\<close> copies containers, and what a copy shares with its original is a
  matter of which objects they are. Here the store is a heap: the objects of each kind
  in the order of their creation, an object's address being its index. The two
  order-book dictionaries are dictionary objects; the two deques, and the lists of a
  snapshot, are list objects whose elements are addresses of trade dictionaries or of
  bucket dictionaries. Floats and integers are values. Creating an object appends it;
  objects are never removed (an evicted trade just stops being referred to).
\<close>

record store =
  dict_objs :: "(real \<times> real) list list"
  list_objs :: "nat list list"
  trade_objs :: "trade list"
  bucket_objs :: "bucket list"
  bids_at :: nat
  asks_at :: nat
  trades_at :: nat
  volume_at :: nat
  o_last_update_id :: int
  o_ticker_pct :: real

text \<open>The module's \<^verbatim>\<open>state\<close> as first built: four empty containers.\<close>

definition initial_store :: store where
  "initial_store =
     \<lparr>dict_objs = [[], []], list_objs = [[], []], trade_objs = [], bucket_objs = [],
      bids_at = 0, asks_at = 1, trades_at = 0, volume_at = 1,
      o_last_update_id = 0, o_ticker_pct = 0\<rparr>"

text \<open>The contents of the store: what its containers hold, by value.\<close>

definition contents_of :: "store \<Rightarrow> market" where
  "contents_of st =
     \<lparr>bids = dict_objs st ! bids_at st,
      asks = dict_objs st ! asks_at st,
      last_update_id = o_last_update_id st,
      trades = map (\<lambda>a. trade_objs st ! a) (list_objs st ! trades_at st),
      volume_history = map (\<lambda>a. bucket_objs st ! a) (list_objs st ! volume_at st),
      ticker_pct = o_ticker_pct st\<rparr>"

text \<open>
  The store is well formed when its four containers exist and are four objects, the
  deques refer to existing entries, and no bucket is in the bucket deque twice.
\<close>

definition store_ok :: "store \<Rightarrow> bool" where
  "store_ok st =
     (bids_at st < length (dict_objs st) \<and> asks_at st < length (dict_objs st)
      \<and> bids_at st \<noteq> asks_at st
      \<and> trades_at st < length (list_objs st) \<and> volume_at st < length (list_objs st)
      \<and> trades_at st \<noteq> volume_at st
      \<and> (\<forall>a \<in> set (list_objs st ! trades_at st). a < length (trade_objs st))
      \<and> (\<forall>a \<in> set (list_objs st ! volume_at st). a < length (bucket_objs st))
      \<and> distinct (list_objs st ! volume_at st))"

subsection \<open>The consumers, on objects\<close>

definition process_depth_obj :: "store \<Rightarrow> depth_msg \<Rightarrow> store" where
  "process_depth_obj st msg =
     (let st1 = st\<lparr>dict_objs := (dict_objs st)
                     [bids_at st := assign_levels (dict_objs st ! bids_at st) (dm_b msg)]\<rparr>;
          st2 = st1\<lparr>dict_objs := (dict_objs st1)
                     [asks_at st1 := assign_levels (dict_objs st1 ! asks_at st1) (dm_a msg)]\<rparr>
      in st2\<lparr>o_last_update_id := dm_u msg\<rparr>)"

text \<open>
  \<^verbatim>\<open>_update_volumes_locked\<close>: the first branch writes into the last bucket
  dictionary, the second creates a bucket dictionary and appends its address.
\<close>

definition update_volumes_locked_obj :: "store \<Rightarrow> real \<Rightarrow> store" where
  "update_volumes_locked_obj st now =
     (let current_time = current_minute now;
          current_volume =
            sum_list (map t_qty (filter (\<lambda>tr. current_time \<le> t_time tr div 1000)
                       (map (\<lambda>a. trade_objs st ! a) (list_objs st ! trades_at st))));
          vh = list_objs st ! volume_at st
      in if vh \<noteq> [] \<and> b_time (bucket_objs st ! last vh) = current_time
         then st\<lparr>bucket_objs := (bucket_objs st)
                    [last vh := (bucket_objs st ! last vh)\<lparr>b_volume := current_volume\<rparr>]\<rparr>
         else st\<lparr>bucket_objs := bucket_objs st
                                   @ [\<lparr>b_time = current_time, b_volume = current_volume\<rparr>],
                 list_objs := (list_objs st)
                    [volume_at st := deque_append 20 vh (length (bucket_objs st))]\<rparr>)"

text \<open>A trade dictionary is created and its address appended to the trade deque.\<close>

definition process_trades_obj :: "store \<Rightarrow> trade_msg \<Rightarrow> real \<Rightarrow> store" where
  "process_trades_obj st msg now =
     update_volumes_locked_obj
       (st\<lparr>trade_objs := trade_objs st @ [trade_of msg],
           list_objs := (list_objs st)
              [trades_at st := deque_append 100 (list_objs st ! trades_at st)
                                 (length (trade_objs st))]\<rparr>) now"

definition process_ticker_obj :: "store \<Rightarrow> ticker_msg \<Rightarrow> store" where
  "process_ticker_obj st msg =
     st\<lparr>o_ticker_pct := (case km_P msg of Some pct \<Rightarrow> pct | None \<Rightarrow> 0)\<rparr>"

subsection \<open>get\_snapshot\<close>

text \<open>
  The dictionary that \<^verbatim>\<open>get_snapshot\<close> returns: the addresses of its two dictionaries
  and two lists, and the ticker value. The dictionaries that nest them are built by
  the call and referred to by nothing else.
\<close>

record snapshot_refs =
  r_bids :: nat
  r_asks :: nat
  r_trades :: nat
  r_volume_history :: nat
  r_ticker_pct :: real

text \<open>
  \<^verbatim>\<open>dict(d)\<close> and \<^verbatim>\<open>list(q)\<close> each create one object with the items, or the elements,
  of their argument: the elements of the two new lists are the addresses that the
  deques hold.
\<close>

definition get_snapshot :: "store \<Rightarrow> snapshot_refs \<times> store" where
  "get_snapshot st =
     (\<lparr>r_bids = length (dict_objs st), r_asks = Suc (length (dict_objs st)),
       r_trades = length (list_objs st), r_volume_history = Suc (length (list_objs st)),
       r_ticker_pct = o_ticker_pct st\<rparr>,
      st\<lparr>dict_objs := dict_objs st @ [dict_objs st ! bids_at st, dict_objs st ! asks_at st],
         list_objs := list_objs st @ [list_objs st ! trades_at st, list_objs st ! volume_at st]\<rparr>)"

text \<open>What a snapshot holds, by value, in a given heap.\<close>

definition snapshot_value :: "store \<Rightarrow> snapshot_refs \<Rightarrow> snapshot" where
  "snapshot_value st snap =
     \<lparr>s_bids = dict_objs st ! r_bids snap,
      s_asks = dict_objs st ! r_asks snap,
      s_trades = map (\<lambda>a. trade_objs st ! a) (list_objs st ! r_trades snap),
      s_volume_history = map (\<lambda>a. bucket_objs st ! a) (list_objs st ! r_volume_history snap),
      s_ticker_pct = r_ticker_pct snap\<rparr>"

text \<open>
  Writes by the holder of a snapshot. The first two stand for every change of a
  dictionary or list object (setting, deleting, appending, clearing: any new contents);
  the last two for a write into a trade or bucket dictionary.
\<close>

definition write_dict :: "store \<Rightarrow> nat \<Rightarrow> (real \<times> real) list \<Rightarrow> store" where
  "write_dict st a d = st\<lparr>dict_objs := (dict_objs st)[a := d]\<rparr>"

definition write_list :: "store \<Rightarrow> nat \<Rightarrow> nat list \<Rightarrow> store" where
  "write_list st a l = st\<lparr>list_objs := (list_objs st)[a := l]\<rparr>"

definition write_trade :: "store \<Rightarrow> nat \<Rightarrow> trade \<Rightarrow> store" where
  "write_trade st a tr = st\<lparr>trade_objs := (trade_objs st)[a := tr]\<rparr>"

definition write_bucket :: "store \<Rightarrow> nat \<Rightarrow> bucket \<Rightarrow> store" where
  "write_bucket st a b = st\<lparr>bucket_objs := (bucket_objs st)[a := b]\<rparr>"

text \<open>
  \<^verbatim>\<open>snapshot["trades"][i]["qty"] = v\<close> and \<^verbatim>\<open>snapshot["volume_history"][i]["volume"] = v\<close>,
  written by the holder of a snapshot.
\<close>

definition set_snapshot_trade_qty :: "store \<Rightarrow> snapshot_refs \<Rightarrow> nat \<Rightarrow> real \<Rightarrow> store" where
  "set_snapshot_trade_qty st snap i v =
     (let a = (list_objs st ! r_trades snap) ! i
      in write_trade st a ((trade_objs st ! a)\<lparr>t_qty := v\<rparr>))"

definition set_snapshot_bucket_volume :: "store \<Rightarrow> snapshot_refs \<Rightarrow> nat \<Rightarrow> real \<Rightarrow> store" where
  "set_snapshot_bucket_volume st snap i v =
     (let a = (list_objs st ! r_volume_history snap) ! i
      in write_bucket st a ((bucket_objs st ! a)\<lparr>b_volume := v\<rparr>))"

text \<open>
  A store with one level on each side, one trade and one bucket: the initial store
  after a depth update and a trade stamped 60.05 s, processed at 60.1 s of the clock.
\<close>

definition example_store :: store where
  "example_store =
     \<lparr>dict_objs = [[(100, 2)], [(101, 3)]], list_objs = [[0], [0]],
      trade_objs = [\<lparr>t_price = 100.5, t_qty = 1, t_is_buyer_maker = False, t_time = 60050,
                     t_side = ''BUY''\<rparr>],
      bucket_objs = [\<lparr>b_time = 60, b_volume = 1\<rparr>],
      bids_at = 0, asks_at = 1, trades_at = 0, volume_at = 1,
      o_last_update_id = 7, o_ticker_pct = 0\<rparr>"

text \<open>Trade events applied to the objects; the two consumers have the same body.\<close>

definition run_trade_events_obj :: "store \<Rightarrow> (stream \<times> trade_msg \<times> real) list \<Rightarrow> store" where
  "run_trade_events_obj st evs = foldl (\<lambda>s (strm, msg, now). process_trades_obj s msg now) st evs"

section \<open>Properties\<close>

subsection \<open>Entry fills and order size\<close>

text \<open>
  C2. An \<^verbatim>\<open>ORDER_TRADE_UPDATE\<close> with status \<^verbatim>\<open>FILLED\<close> for the recorded entry order,
  cumulative quantity \<open>q\<close> and average price \<open>p\<close>: on side \<^verbatim>\<open>BUY\<close> the position becomes
  long with entry \<open>p\<close>, quantity \<open>q\<close>, \<^verbatim>\<open>max_pnl\<close> zero, and exactly one command, a
  \<^verbatim>\<open>SELL\<close> stop for \<open>q\<close> at \<open>p * (1 - 0.02)\<close>, is put at the end of the queue; on side
  \<^verbatim>\<open>SELL\<close> it becomes short and the command is a \<^verbatim>\<open>BUY\<close> stop at \<open>p * (1 + 0.02)\<close>.
  The other keys keep their values.
\<close>

theorem user_handler_entry_fill:
  assumes "entry_order_id pos = Some oid"
    and "msg = \<lparr>msg_e = ''ORDER_TRADE_UPDATE'',
                msg_o = \<lparr>o_i = oid, o_X = ''FILLED'', o_S = sd, o_z = q, o_ap = p\<rparr>\<rparr>"
  shows "(sd = ''BUY'' \<longrightarrow>
            user_handler pos cq msg =
              (pos\<lparr>state := long, entry := Some p, qty := q, max_pnl := 0\<rparr>,
               cq @ [(''place_stop_order'', ''SELL'', q, p * (1 - 0.02))]))
       \<and> (sd = ''SELL'' \<longrightarrow>
            user_handler pos cq msg =
              (pos\<lparr>state := short, entry := Some p, qty := q, max_pnl := 0\<rparr>,
               cq @ [(''place_stop_order'', ''BUY'', q, p * (1 + 0.02))]))"
  using assms by (simp add: user_handler_def)

theorem user_handler_entry_fill_witness:
  "user_handler (initial_position\<lparr>entry_order_id := Some 42\<rparr>) []
     \<lparr>msg_e = ''ORDER_TRADE_UPDATE'',
      msg_o = \<lparr>o_i = 42, o_X = ''FILLED'', o_S = ''BUY'', o_z = 1, o_ap = 100\<rparr>\<rparr>
   = (\<lparr>state = long, entry_order_id = Some 42, stop_order_id = None, entry = Some 100,
       qty = 1, max_pnl = 0, stop_price = None\<rparr>,
      [(''place_stop_order'', ''SELL'', 1, 98)])
  \<and> user_handler (initial_position\<lparr>entry_order_id := Some 42\<rparr>) []
     \<lparr>msg_e = ''ORDER_TRADE_UPDATE'',
      msg_o = \<lparr>o_i = 42, o_X = ''FILLED'', o_S = ''SELL'', o_z = 1, o_ap = 100\<rparr>\<rparr>
   = (\<lparr>state = short, entry_order_id = Some 42, stop_order_id = None, entry = Some 100,
       qty = 1, max_pnl = 0, stop_price = None\<rparr>,
      [(''place_stop_order'', ''BUY'', 1, 102)])"
  using user_handler_entry_fill
          [of "initial_position\<lparr>entry_order_id := Some 42\<rparr>" 42 _ "''BUY''" 1 100 "[]"]
        user_handler_entry_fill
          [of "initial_position\<lparr>entry_order_id := Some 42\<rparr>" 42 _ "''SELL''" 1 100 "[]"]
  by (simp add: initial_position_def)

text \<open>
  C8. When the ticker price is not zero (so that \<^verbatim>\<open>calc_qty\<close> returns) and the notional
  \<^verbatim>\<open>round(balance * RISK_PER_TRADE * LEVERAGE / price, 3) * price\<close> is below 20,
  \<^verbatim>\<open>enter_position\<close> makes no request to the exchange and returns the position
  dictionary as it was.
\<close>

theorem enter_position_min_notional:
  assumes "price \<noteq> 0"
    and "round3 (balance * RISK_PER_TRADE * LEVERAGE / price) * price < 20"
  shows "enter_position pos signal price balance reply = Inr (pos, [])"
  using assms by (simp add: enter_position_def calc_qty_def)

theorem enter_position_min_notional_witness:
  "(100::real) \<noteq> 0
   \<and> round3 (1 * RISK_PER_TRADE * LEVERAGE / 100) * 100 = 18
   \<and> enter_position initial_position ''BUY'' 100 1
        (Some \<lparr>status = Some ''NEW'', orderId = Some 7\<rparr>) = Inr (initial_position, [])"
proof -
  have r: "round3 (1 * RISK_PER_TRADE * LEVERAGE / 100) * 100 = 18"
    by (simp add: round3_def round_half_even_def RISK_PER_TRADE_def LEVERAGE_def)
  show ?thesis
    using r enter_position_min_notional
            [of 100 1 initial_position "''BUY''" "Some \<lparr>status = Some ''NEW'', orderId = Some 7\<rparr>"]
    by simp
qed

subsection \<open>The trailing stop\<close>

lemma never_against_refl: "never_against st a a"
  by (simp add: never_against_def split: option.splits)

lemma never_against_trans:
  "never_against st a b \<Longrightarrow> never_against st b c \<Longrightarrow> never_against st a c"
  by (auto simp: never_against_def split: option.splits if_splits)

text \<open>
  One call on an open position returns, leaves the position open on the same side, and
  moves the recorded stop, if at all, with the position: the stop is recomputed only from
  a PnL above \<^verbatim>\<open>max_pnl\<close>, and the new stop grows with that PnL.
\<close>

lemma update_trailing_stop_open:
  assumes "open_position pos"
  shows "\<exists>pos' calls. update_trailing_stop pos current_price = Inr (pos', calls)
           \<and> open_position pos' \<and> state pos' = state pos
           \<and> never_against (state pos) (stop_price pos) (stop_price pos')"
proof -
  from assms obtain en where en: "entry pos = Some en" and q: "0 < qty pos"
    and st: "state pos \<noteq> none"
    and lvl: "never_against (state pos) (stop_price pos) (Some (ratchet_level pos en))"
    by (auto simp: open_position_def split: option.splits)
  define pnl where "pnl = (if state pos = long then (current_price - en) * qty pos * LEVERAGE
                         else (en - current_price) * qty pos * LEVERAGE)"
  show ?thesis
  proof (cases "max_pnl pos < pnl")
    case False
    then have "update_trailing_stop pos current_price = Inr (pos, [])"
      using en st by (simp add: update_trailing_stop_def pnl_def Let_def)
    then show ?thesis using assms by (simp add: never_against_refl)
  next
    case True
    have ql: "0 < qty pos * LEVERAGE" using q by (simp add: LEVERAGE_def)
    have "max_pnl pos * (1 - DYNAMIC_SL) \<le> pnl * (1 - DYNAMIC_SL)"
      using True by (simp add: DYNAMIC_SL_def)
    then have mono: "max_pnl pos * (1 - DYNAMIC_SL) / (qty pos * LEVERAGE)
                  \<le> pnl * (1 - DYNAMIC_SL) / (qty pos * LEVERAGE)"
      using ql by (intro divide_right_mono) simp_all
    show ?thesis
      using True en st q lvl mono ql
      apply (simp add: update_trailing_stop_def pnl_def [symmetric] Let_def place_stop_order_def
               DRY_RUN_def open_position_def ratchet_level_def split: prod.splits)
      apply (auto simp: never_against_def split: option.splits if_splits)
      done
  qed
qed

text \<open>
  The position that an entry fill and the drain of its command leave is open in this
  sense, when the fill reports a positive quantity and a price that is not negative.
\<close>

lemma entry_fill_open_position:
  assumes "entry_order_id pos = Some (o_i (msg_o msg))"
    and "msg_e msg = ''ORDER_TRADE_UPDATE''" and "o_X (msg_o msg) = ''FILLED''"
    and "0 < o_z (msg_o msg)" and "0 \<le> o_ap (msg_o msg)"
    and "user_handler pos [] msg = (pos1, [cmd])"
    and "apply_command pos1 cmd = (pos2, calls)"
  shows "open_position pos2"
  using assms
  by (auto simp: user_handler_def apply_command_def place_stop_order_def DRY_RUN_def Let_def
        open_position_def ratchet_level_def never_against_def mult_le_cancel_left1
        mult_le_cancel_left2 split: if_splits)

text \<open>
  C1, as the source has it: \<^verbatim>\<open>update_trailing_stop\<close> compares the PnL with
  \<^verbatim>\<open>max_pnl\<close> and never the new stop with the recorded one. From a position that is
  long or short with a positive quantity, an entry price, and a recorded stop (if any)
  that is not beyond the stop computed from the recorded \<^verbatim>\<open>max_pnl\<close> (the state that
  an entry fill and the drain of its stop command leave), for every sequence of prices:
  every call of \<^verbatim>\<open>update_trailing_stop\<close> returns, and in the sequence of recorded
  stop prices (the one before the first call, then the one after each call) no stop is
  followed, at any distance, by one that lies against the position: the sequence is
  non-decreasing for a long position and non-increasing for a short one.
\<close>

theorem trailing_stop_ratchet:
  assumes "open_position pos"
  shows "length (run_trailing pos prices) = length prices
       \<and> sorted_wrt (never_against (state pos)) (map stop_price (pos # run_trailing pos prices))"
  using assms
proof (induction prices arbitrary: pos)
  case Nil
  then show ?case by simp
next
  case (Cons current_price prices)
  from update_trailing_stop_open [OF Cons.prems, of current_price]
  obtain pos' cs where step: "update_trailing_stop pos current_price = Inr (pos', cs)"
    and op': "open_position pos'" and st: "state pos' = state pos"
    and na: "never_against (state pos) (stop_price pos) (stop_price pos')"
    by blast
  from Cons.IH [OF op'] have len: "length (run_trailing pos' prices) = length prices"
    and srt: "sorted_wrt (never_against (state pos))
                (map stop_price (pos' # run_trailing pos' prices))"
    by (simp_all add: st)
  have "\<forall>y \<in> set (map stop_price (pos' # run_trailing pos' prices)).
          never_against (state pos) (stop_price pos) y"
    using srt na by (auto intro: never_against_trans)
  then show ?case using step len srt by simp
qed

theorem trailing_stop_ratchet_witness:
  "open_position \<lparr>state = long, entry_order_id = Some 42, stop_order_id = None,
                   entry = Some 100, qty = 1, max_pnl = 0, stop_price = Some 98\<rparr>
   \<and> map stop_price
       (run_trailing \<lparr>state = long, entry_order_id = Some 42, stop_order_id = None,
                       entry = Some 100, qty = 1, max_pnl = 0, stop_price = Some 98\<rparr>
          [101, 100.5, 103, 90])
     = [Some 100.98, Some 100.98, Some 102.94, Some 102.94]
   \<and> sorted_wrt (never_against long)
       [Some 98, Some 100.98, Some 100.98, Some 102.94, Some 102.94]
   \<and> open_position \<lparr>state = short, entry_order_id = Some 42, stop_order_id = None,
                     entry = Some 100, qty = 1, max_pnl = 0, stop_price = Some 102\<rparr>
   \<and> map stop_price
       (run_trailing \<lparr>state = short, entry_order_id = Some 42, stop_order_id = None,
                       entry = Some 100, qty = 1, max_pnl = 0, stop_price = Some 102\<rparr>
          [99, 101, 97])
     = [Some 99.02, Some 99.02, Some 97.06]
   \<and> sorted_wrt (never_against short) [Some 102, Some 99.02, Some 99.02, Some 97.06]"
proof -
  let ?p = "\<lparr>state = long, entry_order_id = Some 42, stop_order_id = None,
             entry = Some 100, qty = 1, max_pnl = 0, stop_price = Some 98\<rparr>"
  let ?cs = "[101, 100.5, 103, 90] :: real list"
  let ?q = "\<lparr>state = short, entry_order_id = Some 42, stop_order_id = None,
             entry = Some 100, qty = 1, max_pnl = 0, stop_price = Some 102\<rparr>"
  let ?ds = "[99, 101, 97] :: real list"
  have h: "open_position ?p"
    by (simp add: open_position_def never_against_def ratchet_level_def DYNAMIC_SL_def
          LEVERAGE_def)
  have r: "map stop_price (run_trailing ?p ?cs)
             = [Some 100.98, Some 100.98, Some 102.94, Some 102.94]"
    by (simp add: update_trailing_stop_def LEVERAGE_def DYNAMIC_SL_def Let_def
          place_stop_order_def DRY_RUN_def)
  have "sorted_wrt (never_against (state ?p)) (map stop_price (?p # run_trailing ?p ?cs))"
    using trailing_stop_ratchet [OF h, of ?cs] by (rule conjunct2)
  then have l: "sorted_wrt (never_against (state ?p))
               (stop_price ?p # [Some 100.98, Some 100.98, Some 102.94, Some 102.94])"
    unfolding list.map(2) r .
  have h': "open_position ?q"
    by (simp add: open_position_def never_against_def ratchet_level_def DYNAMIC_SL_def
          LEVERAGE_def)
  have r': "map stop_price (run_trailing ?q ?ds) = [Some 99.02, Some 99.02, Some 97.06]"
    by (simp add: update_trailing_stop_def LEVERAGE_def DYNAMIC_SL_def Let_def
          place_stop_order_def DRY_RUN_def)
  have "sorted_wrt (never_against (state ?q)) (map stop_price (?q # run_trailing ?q ?ds))"
    using trailing_stop_ratchet [OF h', of ?ds] by (rule conjunct2)
  then have "sorted_wrt (never_against (state ?q))
               (stop_price ?q # [Some 99.02, Some 99.02, Some 97.06])"
    unfolding list.map(2) r' .
  then show ?thesis using l h r h' r' by simp
qed

text \<open>
  A long position whose recorded stop is a stale one. A first entry is filled at 110
  and its stop command, at 107.8, is queued; the position is closed and a second entry
  order placed before the queue is drained; the drain records the stop 107.8; the
  second entry is filled at 100.
\<close>

lemma stale_stop_first_entry:
  "enter_position initial_position ''BUY'' 110 11
     (Some \<lparr>status = Some ''NEW'', orderId = Some 7\<rparr>)
   = Inr (initial_position\<lparr>entry_order_id := Some 7\<rparr>, [MarketOrder ''BUY'' 1.8])"
  by (simp add: enter_position_def calc_qty_def round3_def round_half_even_def
        RISK_PER_TRADE_def LEVERAGE_def place_market_order_def DRY_RUN_def SIDE_BUY_def)

lemma stale_stop_first_fill:
  "user_handler (initial_position\<lparr>entry_order_id := Some 7\<rparr>) []
     \<lparr>msg_e = ''ORDER_TRADE_UPDATE'',
      msg_o = \<lparr>o_i = 7, o_X = ''FILLED'', o_S = ''BUY'', o_z = 1.8, o_ap = 110\<rparr>\<rparr>
   = (\<lparr>state = long, entry_order_id = Some 7, stop_order_id = None, entry = Some 110,
       qty = 1.8, max_pnl = 0, stop_price = None\<rparr>,
      [(''place_stop_order'', ''SELL'', 1.8, 107.8)])"
  by (simp add: user_handler_def Let_def initial_position_def)

lemma stale_stop_close:
  "close_position \<lparr>state = long, entry_order_id = Some 7, stop_order_id = None,
                    entry = Some 110, qty = 1.8, max_pnl = 0, stop_price = None\<rparr>
     (Some \<lparr>status = Some ''NEW'', orderId = Some 8\<rparr>)
   = (initial_position, [MarketOrder ''SELL'' 1.8])"
  by (simp add: close_position_def place_market_order_def DRY_RUN_def SIDE_SELL_def
        cancel_stop_order_def initial_position_def)

lemma stale_stop_second_entry:
  "enter_position initial_position ''BUY'' 100 10
     (Some \<lparr>status = Some ''NEW'', orderId = Some 9\<rparr>)
   = Inr (initial_position\<lparr>entry_order_id := Some 9\<rparr>, [MarketOrder ''BUY'' 1.8])"
  by (simp add: enter_position_def calc_qty_def round3_def round_half_even_def
        RISK_PER_TRADE_def LEVERAGE_def place_market_order_def DRY_RUN_def SIDE_BUY_def)

lemma stale_stop_drain:
  "apply_command (initial_position\<lparr>entry_order_id := Some 9\<rparr>)
     (''place_stop_order'', ''SELL'', 1.8, 107.8)
   = (initial_position\<lparr>entry_order_id := Some 9, stop_price := Some 107.8\<rparr>, [])"
  by (simp add: apply_command_def place_stop_order_def DRY_RUN_def initial_position_def)

lemma stale_stop_second_fill:
  "user_handler (initial_position\<lparr>entry_order_id := Some 9, stop_price := Some 107.8\<rparr>) []
     \<lparr>msg_e = ''ORDER_TRADE_UPDATE'',
      msg_o = \<lparr>o_i = 9, o_X = ''FILLED'', o_S = ''BUY'', o_z = 1.8, o_ap = 100\<rparr>\<rparr>
   = (\<lparr>state = long, entry_order_id = Some 9, stop_order_id = None, entry = Some 100,
       qty = 1.8, max_pnl = 0, stop_price = Some 107.8\<rparr>,
      [(''place_stop_order'', ''SELL'', 1.8, 98)])"
  by (simp add: user_handler_def Let_def initial_position_def)

lemma stale_stop_reachable:
  "reachable \<lparr>state = long, entry_order_id = Some 9, stop_order_id = None, entry = Some 100,
              qty = 1.8, max_pnl = 0, stop_price = Some 107.8\<rparr>"
proof -
  have e1: "exchange_event \<lparr>msg_e = ''ORDER_TRADE_UPDATE'',
      msg_o = \<lparr>o_i = 7, o_X = ''FILLED'', o_S = ''BUY'', o_z = 1.8, o_ap = 110\<rparr>\<rparr>"
    and e2: "exchange_event \<lparr>msg_e = ''ORDER_TRADE_UPDATE'',
      msg_o = \<lparr>o_i = 9, o_X = ''FILLED'', o_S = ''BUY'', o_z = 1.8, o_ap = 100\<rparr>\<rparr>"
    by (simp_all add: exchange_event_def)
  note r1 = reachable.enter [OF reachable.start stale_stop_first_entry]
  note r2 = reachable.user_event [OF r1 e1 stale_stop_first_fill]
  note r3 = reachable.close [OF r2 stale_stop_close]
  note r4 = reachable.enter [OF r3 stale_stop_second_entry]
  note r5 = reachable.command [OF r4 stale_stop_drain]
  show ?thesis by (rule reachable.user_event [OF r5 e2 stale_stop_second_fill])
qed

text \<open>
  C1 as stated fails: on that position (state long, entry 100, quantity 1.8,
  \<^verbatim>\<open>max_pnl\<close> 0, recorded stop 107.8) a call of \<^verbatim>\<open>update_trailing_stop\<close> with the
  price 101 finds a PnL of 36 above \<^verbatim>\<open>max_pnl\<close> and records the stop 100.98: the
  stop of a long position has moved down.
\<close>

theorem trailing_stop_counterexample:
  "reachable \<lparr>state = long, entry_order_id = Some 9, stop_order_id = None, entry = Some 100,
              qty = 1.8, max_pnl = 0, stop_price = Some 107.8\<rparr>
   \<and> map stop_price
       (\<lparr>state = long, entry_order_id = Some 9, stop_order_id = None, entry = Some 100,
         qty = 1.8, max_pnl = 0, stop_price = Some 107.8\<rparr>
        # run_trailing \<lparr>state = long, entry_order_id = Some 9, stop_order_id = None,
                        entry = Some 100, qty = 1.8, max_pnl = 0, stop_price = Some 107.8\<rparr>
            [101])
     = [Some 107.8, Some 100.98]
   \<and> \<not> never_against long (Some 107.8) (Some 100.98)"
  using stale_stop_reachable
  by (simp add: update_trailing_stop_def LEVERAGE_def DYNAMIC_SL_def Let_def
        place_stop_order_def DRY_RUN_def never_against_def)

subsection \<open>The position invariant\<close>

text \<open>
  C4, as the source has it. While an entry order awaits its fill the state is still none
  and \<^verbatim>\<open>entry_order_id\<close> is set, and a drained command writes \<^verbatim>\<open>stop_price\<close> and
  \<^verbatim>\<open>stop_order_id\<close> whatever the state. What holds in every state: with state none,
  \<^verbatim>\<open>entry\<close> is unset and \<^verbatim>\<open>qty\<close> and \<^verbatim>\<open>max_pnl\<close> are zero; with state long or short,
  \<^verbatim>\<open>entry\<close> is set and it and \<^verbatim>\<open>qty\<close> are positive (fills reporting positive
  quantity and price).
\<close>

theorem position_invariant:
  assumes "reachable pos"
  shows "(state pos = none \<longrightarrow> entry pos = None \<and> qty pos = 0 \<and> max_pnl pos = 0)
       \<and> (state pos = long \<or> state pos = short \<longrightarrow>
            (\<exists>en. entry pos = Some en \<and> 0 < en) \<and> 0 < qty pos)"
  using assms
proof (induction rule: reachable.induct)
  case start
  then show ?case by (simp add: initial_position_def)
next
  case (user_event pos msg cq pos' cq')
  then show ?case
    by (auto simp: user_handler_def exchange_event_def Let_def split: if_splits)
next
  case (command pos cmd pos' calls)
  then show ?case
    by (auto simp: apply_command_def place_stop_order_def DRY_RUN_def
             split: prod.splits if_splits)
next
  case (trailing pos current_price pos' calls)
  then show ?case
    by (auto simp: update_trailing_stop_def place_stop_order_def DRY_RUN_def Let_def
             split: if_splits option.splits prod.splits)
next
  case (trailing_raised pos current_price err pos')
  then show ?case
    by (auto simp: update_trailing_stop_def place_stop_order_def DRY_RUN_def Let_def
             split: if_splits option.splits prod.splits)
next
  case (enter pos signal price balance mreply pos' calls)
  then show ?case
    by (auto simp: enter_position_def Let_def split: sum.splits if_splits prod.splits)
next
  case (close pos mreply pos' calls)
  then show ?case
    by (auto simp: close_position_def Let_def split: if_splits prod.splits)
qed

lemma enter_position_accepted:
  "enter_position initial_position ''BUY'' 100 10 (Some \<lparr>status = Some ''NEW'', orderId = Some 7\<rparr>)
   = Inr (\<lparr>state = none, entry_order_id = Some 7, stop_order_id = None, entry = None,
           qty = 0, max_pnl = 0, stop_price = None\<rparr>, [MarketOrder ''BUY'' 1.8])"
  by (simp add: enter_position_def calc_qty_def round3_def round_half_even_def
        RISK_PER_TRADE_def LEVERAGE_def place_market_order_def DRY_RUN_def SIDE_BUY_def
        initial_position_def)

lemma entry_fill_accepted:
  "user_handler \<lparr>state = none, entry_order_id = Some 7, stop_order_id = None, entry = None,
                 qty = 0, max_pnl = 0, stop_price = None\<rparr> []
     \<lparr>msg_e = ''ORDER_TRADE_UPDATE'',
      msg_o = \<lparr>o_i = 7, o_X = ''FILLED'', o_S = ''BUY'', o_z = 1.8, o_ap = 100\<rparr>\<rparr>
   = (\<lparr>state = long, entry_order_id = Some 7, stop_order_id = None, entry = Some 100,
       qty = 1.8, max_pnl = 0, stop_price = None\<rparr>,
      [(''place_stop_order'', ''SELL'', 1.8, 98)])"
  by (simp add: user_handler_def Let_def)

theorem position_invariant_witness:
  "reachable \<lparr>state = long, entry_order_id = Some 7, stop_order_id = None, entry = Some 100,
              qty = 1.8, max_pnl = 0, stop_price = None\<rparr>
   \<and> (\<exists>en. entry \<lparr>state = long, entry_order_id = Some 7, stop_order_id = None,
                   entry = Some 100, qty = 1.8, max_pnl = 0, stop_price = None\<rparr> = Some en
            \<and> 0 < en)
   \<and> reachable initial_position
   \<and> entry initial_position = None \<and> qty initial_position = 0 \<and> max_pnl initial_position = 0"
proof -
  have p: "reachable \<lparr>state = none, entry_order_id = Some 7, stop_order_id = None,
                      entry = None, qty = 0, max_pnl = 0, stop_price = None\<rparr>"
    using reachable.enter [OF reachable.start enter_position_accepted] .
  have "exchange_event \<lparr>msg_e = ''ORDER_TRADE_UPDATE'',
      msg_o = \<lparr>o_i = 7, o_X = ''FILLED'', o_S = ''BUY'', o_z = 1.8, o_ap = 100\<rparr>\<rparr>"
    by (simp add: exchange_event_def)
  from reachable.user_event [OF p this entry_fill_accepted]
  have l: "reachable \<lparr>state = long, entry_order_id = Some 7, stop_order_id = None,
                      entry = Some 100, qty = 1.8, max_pnl = 0, stop_price = None\<rparr>" .
  from position_invariant [OF l] position_invariant [OF reachable.start] l reachable.start
  show ?thesis by (simp add: initial_position_def)
qed

text \<open>
  C4 as stated fails: after \<^verbatim>\<open>enter_position\<close> has had its market order accepted
  (balance 10, price 100, order id 7) the state is none and \<^verbatim>\<open>entry_order_id\<close> is 7.
\<close>

theorem position_invariant_counterexample:
  "reachable \<lparr>state = none, entry_order_id = Some 7, stop_order_id = None, entry = None,
              qty = 0, max_pnl = 0, stop_price = None\<rparr>
   \<and> state \<lparr>state = none, entry_order_id = Some 7, stop_order_id = None, entry = None,
            qty = 0, max_pnl = 0, stop_price = None\<rparr> = none
   \<and> entry_order_id \<lparr>state = none, entry_order_id = Some 7, stop_order_id = None,
                     entry = None, qty = 0, max_pnl = 0, stop_price = None\<rparr> \<noteq> None"
  using reachable.enter [OF reachable.start enter_position_accepted] by simp

subsection \<open>Trades and volume buckets\<close>

lemma deque_append_lastn: "deque_append n xs x = lastn n (xs @ [x])"
  by (simp add: deque_append_def lastn_def)

lemma lastn_snoc: "lastn n (lastn n xs @ [x]) = lastn n (xs @ [x])"
proof (cases "n \<le> length xs")
  case True
  then have "Suc (length xs) - (length xs - n + n) + (length xs - n) = Suc (length xs) - n"
    by simp
  then show ?thesis by (simp add: lastn_def)
next
  case False
  then show ?thesis by (simp add: lastn_def)
qed

lemma lastn_Nil_iff: "0 < n \<Longrightarrow> lastn n xs = [] \<longleftrightarrow> xs = []"
  by (cases xs) (auto simp: lastn_def)

lemma last_lastn: "0 < n \<Longrightarrow> xs \<noteq> [] \<Longrightarrow> last (lastn n xs) = last xs"
  by (simp add: lastn_def last_drop)

lemma remdups_adj_snoc:
  "remdups_adj (xs @ [x]) = (if xs \<noteq> [] \<and> last xs = x then remdups_adj xs else remdups_adj xs @ [x])"
  by (induction xs rule: remdups_adj.induct) auto

lemma distinct_remdups_adj_sorted: "sorted xs \<Longrightarrow> distinct (remdups_adj (xs :: int list))"
  by (induction xs rule: remdups_adj.induct) (auto)

lemma sorted_remdups_adj_set:
  "sorted (xs :: int list) \<Longrightarrow> remdups_adj xs = sorted_list_of_set (set xs)"
  using distinct_remdups_adj_sorted [of xs] sorted_remdups_adj [of xs]
    sorted_list_of_set.idem_if_sorted_distinct [of "remdups_adj xs"]
  by simp

lemma current_minute_mono: "a \<le> b \<Longrightarrow> current_minute a \<le> current_minute b"
  by (simp add: current_minute_def floor_mono divide_right_mono)

lemma update_volumes_trades [simp]: "trades (update_volumes_locked st now) = trades st"
  by (simp add: update_volumes_locked_def Let_def)

lemma update_volumes_times:
  "map b_time (volume_history (update_volumes_locked st now)) =
     (if volume_history st \<noteq> [] \<and> last (map b_time (volume_history st)) = current_minute now
      then map b_time (volume_history st)
      else lastn 20 (map b_time (volume_history st) @ [current_minute now]))"
proof (cases "volume_history st \<noteq> [] \<and> b_time (last (volume_history st)) = current_minute now")
  case True
  then obtain ys y where vh: "volume_history st = ys @ [y]"
    by (cases "volume_history st" rule: rev_cases) auto
  show ?thesis
    using True by (simp add: update_volumes_locked_def Let_def vh)
next
  case False
  then show ?thesis
    by (auto simp: update_volumes_locked_def Let_def last_map deque_append_lastn lastn_def
          drop_map)
qed

lemma update_volumes_last:
  "volume_history (update_volumes_locked st now) \<noteq> [] \<and>
   last (volume_history (update_volumes_locked st now)) =
     \<lparr>b_time = current_minute now,
      b_volume = sum_list (map t_qty
                   (filter (\<lambda>tr. current_minute now \<le> t_time tr div 1000) (trades st)))\<rparr>"
  by (auto simp: update_volumes_locked_def Let_def deque_append_def)

lemma apply_trade_event_trades:
  "trades (apply_trade_event st (s, msg, now)) = lastn 100 (trades st @ [trade_of msg])"
  by (cases s) (simp_all add: process_trades_def process_aggtrades_def deque_append_lastn)

lemma apply_trade_event_volumes:
  "volume_history (apply_trade_event st (s, msg, now)) =
     volume_history (update_volumes_locked
        (st\<lparr>trades := lastn 100 (trades st @ [trade_of msg])\<rparr>) now)"
  by (cases s) (simp_all add: process_trades_def process_aggtrades_def deque_append_lastn)

lemma run_trade_events_snoc:
  "run_trade_events st (evs @ [ev]) = apply_trade_event (run_trade_events st evs) ev"
  by (simp add: run_trade_events_def)

lemma run_trades_ring:
  "trades (run_trade_events initial_state evs) = lastn 100 (event_trades evs)"
proof (induction evs rule: rev_induct)
  case Nil
  then show ?case by (simp add: run_trade_events_def initial_state_def lastn_def event_trades_def)
next
  case (snoc ev evs)
  obtain s msg now where ev: "ev = (s, msg, now)" by (cases ev)
  show ?case
    by (simp add: run_trade_events_snoc ev apply_trade_event_trades snoc.IH lastn_snoc
          event_trades_def)
qed

lemma run_trades_times:
  "map b_time (volume_history (run_trade_events initial_state evs))
     = lastn 20 (remdups_adj (event_minutes evs))"
proof (induction evs rule: rev_induct)
  case Nil
  then show ?case
    by (simp add: run_trade_events_def initial_state_def lastn_def event_minutes_def)
next
  case (snoc ev evs)
  obtain s msg now where ev: "ev = (s, msg, now)" by (cases ev)
  let ?st = "run_trade_events initial_state evs"
  let ?r = "remdups_adj (event_minutes evs)"
  let ?m = "current_minute now"
  have em: "event_minutes (evs @ [ev]) = event_minutes evs @ [?m]"
    by (simp add: event_minutes_def ev)
  have step: "map b_time (volume_history (run_trade_events initial_state (evs @ [ev]))) =
     (if volume_history ?st \<noteq> [] \<and> last (map b_time (volume_history ?st)) = ?m
      then map b_time (volume_history ?st)
      else lastn 20 (map b_time (volume_history ?st) @ [?m]))"
    by (simp add: run_trade_events_snoc ev apply_trade_event_volumes update_volumes_times)
  have e: "volume_history ?st = [] \<longleftrightarrow> event_minutes evs = []"
    using snoc.IH lastn_Nil_iff [of 20 ?r] by (metis map_is_Nil_conv remdups_adj_Nil_iff zero_less_numeral)
  show ?case
  proof (cases "event_minutes evs = []")
    case True
    then show ?thesis using step e by (simp add: em lastn_def)
  next
    case False
    then have l: "last (map b_time (volume_history ?st)) = last (event_minutes evs)"
      by (simp add: snoc.IH last_lastn last_remdups_adj)
    show ?thesis
      using False e l step
      by (simp add: em remdups_adj_snoc snoc.IH lastn_snoc)
  qed
qed

lemma sorted_event_minutes:
  assumes "sorted (event_clock evs)"
  shows "sorted (event_minutes evs)"
proof -
  have "sorted_wrt (\<lambda>a b. current_minute a \<le> current_minute b) (event_clock evs)"
    using assms by (rule sorted_wrt_mono_rel [rotated]) (simp add: current_minute_mono)
  moreover have "event_minutes evs = map current_minute (event_clock evs)"
    by (simp add: event_minutes_def event_clock_def split_def)
  ultimately show ?thesis by (simp add: sorted_wrt_map)
qed

text \<open>
  C5, as the source has it: the minute of a bucket is the minute of the local clock when
  the trade is processed, not the minute of a trade's timestamp. For trade events
  applied to the empty store at non-decreasing readings of the local clock: the trade
  ring holds the last 100 trades; the bucket ring holds one bucket for each distinct
  clock minute in which a trade was processed, in increasing order, the last 20 of them;
  and the newest bucket carries the minute of the last reading and the sum of the
  quantities of the trades in the ring whose timestamp, in whole seconds, is not before
  the start of that minute.
\<close>

theorem volume_buckets_by_local_clock:
  assumes "evs \<noteq> []" and "sorted (event_clock evs)"
  shows "trades (run_trade_events initial_state evs) = lastn 100 (event_trades evs)
       \<and> map b_time (volume_history (run_trade_events initial_state evs))
           = lastn 20 (sorted_list_of_set (set (event_minutes evs)))
       \<and> last (volume_history (run_trade_events initial_state evs))
           = \<lparr>b_time = last (event_minutes evs),
              b_volume = sum_list (map t_qty
                 (filter (\<lambda>tr. last (event_minutes evs) \<le> t_time tr div 1000)
                    (trades (run_trade_events initial_state evs))))\<rparr>"
proof (intro conjI)
  show "trades (run_trade_events initial_state evs) = lastn 100 (event_trades evs)"
    by (rule run_trades_ring)
  show "map b_time (volume_history (run_trade_events initial_state evs))
           = lastn 20 (sorted_list_of_set (set (event_minutes evs)))"
    using sorted_remdups_adj_set [OF sorted_event_minutes [OF assms(2)]]
    by (simp add: run_trades_times)
  from assms(1) obtain evs' s msg now where evs: "evs = evs' @ [(s, msg, now)]"
    by (cases evs rule: rev_cases) auto
  have m: "last (event_minutes evs) = current_minute now"
    by (simp add: evs event_minutes_def)
  have t: "trades (run_trade_events initial_state evs)
             = lastn 100 (trades (run_trade_events initial_state evs') @ [trade_of msg])"
    by (simp add: evs run_trade_events_snoc apply_trade_event_trades)
  show "last (volume_history (run_trade_events initial_state evs))
           = \<lparr>b_time = last (event_minutes evs),
              b_volume = sum_list (map t_qty
                 (filter (\<lambda>tr. last (event_minutes evs) \<le> t_time tr div 1000)
                    (trades (run_trade_events initial_state evs))))\<rparr>"
    unfolding m t
    by (simp add: evs run_trade_events_snoc apply_trade_event_volumes update_volumes_last)
qed

lemma run_two_minutes:
  "run_trade_events initial_state
     [(TradeStream, \<lparr>tm_e = ''trade'', tm_p = 100, tm_q = 1, tm_m = False, tm_T = 59900\<rparr>, 60.1),
      (AggTradeStream, \<lparr>tm_e = ''aggTrade'', tm_p = 100, tm_q = 2, tm_m = True, tm_T = 60100\<rparr>, 60.3)]
   = \<lparr>bids = [], asks = [], last_update_id = 0,
      trades = [\<lparr>t_price = 100, t_qty = 1, t_is_buyer_maker = False, t_time = 59900, t_side = ''BUY''\<rparr>,
                \<lparr>t_price = 100, t_qty = 2, t_is_buyer_maker = True, t_time = 60100, t_side = ''SELL''\<rparr>],
      volume_history = [\<lparr>b_time = 60, b_volume = 2\<rparr>], ticker_pct = 0\<rparr>"
  by (simp add: run_trade_events_def process_trades_def process_aggtrades_def
        update_volumes_locked_def current_minute_def deque_append_def trade_of_def
        initial_state_def Let_def)

text \<open>
  C5 as stated fails, the minutes touched being those of the trades' timestamps. Two
  trades, stamped 59.9 s and 60.1 s, are processed at 60.1 s and 60.3 s of the local
  clock: the timestamps are non-decreasing and lie in the minutes 0 and 60, the trade
  ring holds both trades, and the bucket ring holds the one bucket of minute 60.
\<close>

theorem volume_buckets_counterexample:
  "sorted (map tm_T
     [\<lparr>tm_e = ''trade'', tm_p = 100, tm_q = 1, tm_m = False, tm_T = 59900\<rparr>,
      \<lparr>tm_e = ''aggTrade'', tm_p = 100, tm_q = 2, tm_m = True, tm_T = 60100\<rparr>])
   \<and> map trade_minute (trades (run_trade_events initial_state
     [(TradeStream, \<lparr>tm_e = ''trade'', tm_p = 100, tm_q = 1, tm_m = False, tm_T = 59900\<rparr>, 60.1),
      (AggTradeStream, \<lparr>tm_e = ''aggTrade'', tm_p = 100, tm_q = 2, tm_m = True, tm_T = 60100\<rparr>, 60.3)]))
       = [0, 60]
   \<and> map b_time (volume_history (run_trade_events initial_state
     [(TradeStream, \<lparr>tm_e = ''trade'', tm_p = 100, tm_q = 1, tm_m = False, tm_T = 59900\<rparr>, 60.1),
      (AggTradeStream, \<lparr>tm_e = ''aggTrade'', tm_p = 100, tm_q = 2, tm_m = True, tm_T = 60100\<rparr>, 60.3)]))
       = [60]"
  unfolding run_two_minutes by (simp add: trade_minute_def)

theorem volume_buckets_by_local_clock_witness:
  "[(TradeStream, \<lparr>tm_e = ''trade'', tm_p = 100, tm_q = 1, tm_m = False, tm_T = 59900\<rparr>, 60.1),
    (AggTradeStream, \<lparr>tm_e = ''aggTrade'', tm_p = 100, tm_q = 2, tm_m = True, tm_T = 60100\<rparr>, 60.3)] \<noteq> []
   \<and> sorted (event_clock
       [(TradeStream, \<lparr>tm_e = ''trade'', tm_p = 100, tm_q = 1, tm_m = False, tm_T = 59900\<rparr>, 60.1),
        (AggTradeStream, \<lparr>tm_e = ''aggTrade'', tm_p = 100, tm_q = 2, tm_m = True, tm_T = 60100\<rparr>, 60.3)])
   \<and> lastn 20 (sorted_list_of_set (set (event_minutes
       [(TradeStream, \<lparr>tm_e = ''trade'', tm_p = 100, tm_q = 1, tm_m = False, tm_T = 59900\<rparr>, 60.1),
        (AggTradeStream, \<lparr>tm_e = ''aggTrade'', tm_p = 100, tm_q = 2, tm_m = True, tm_T = 60100\<rparr>, 60.3)])))
      = [60]
   \<and> last (volume_history (run_trade_events initial_state
       [(TradeStream, \<lparr>tm_e = ''trade'', tm_p = 100, tm_q = 1, tm_m = False, tm_T = 59900\<rparr>, 60.1),
        (AggTradeStream, \<lparr>tm_e = ''aggTrade'', tm_p = 100, tm_q = 2, tm_m = True, tm_T = 60100\<rparr>, 60.3)]))
      = \<lparr>b_time = 60, b_volume = 2\<rparr>"
proof -
  let ?evs = "[(TradeStream, \<lparr>tm_e = ''trade'', tm_p = 100, tm_q = 1, tm_m = False, tm_T = 59900\<rparr>, 60.1),
    (AggTradeStream, \<lparr>tm_e = ''aggTrade'', tm_p = 100, tm_q = 2, tm_m = True, tm_T = 60100\<rparr>, 60.3)]"
  have h1: "?evs \<noteq> []" by simp
  have h2: "sorted (event_clock ?evs)" by (simp add: event_clock_def)
  have m: "event_minutes ?evs = [60, 60]" by (simp add: event_minutes_def current_minute_def)
  from volume_buckets_by_local_clock [OF h1 h2] h1 h2 show ?thesis
    unfolding run_two_minutes m by (simp add: lastn_def)
qed

subsection \<open>Feed handlers\<close>

text \<open>The depth handler drops a message whose tag is not \<^verbatim>\<open>depthUpdate\<close>.\<close>

lemma depth_handler_filters:
  "dm_e msg \<noteq> ''depthUpdate'' \<Longrightarrow> depth_handler depth_queue msg = (depth_queue, [])"
  by (simp add: depth_handler_def)

text \<open>The other three handlers put every message on their queue while it has room.\<close>

lemma unfiltered_handlers:
  "length q < MAX_QUEUE \<Longrightarrow> trade_handler q msg = (q @ [msg], [])"
  "length q < MAX_QUEUE \<Longrightarrow> aggtrade_handler q msg = (q @ [msg], [])"
  "length kq < MAX_QUEUE \<Longrightarrow> ticker_handler kq kmsg = (kq @ [kmsg], [])"
  by (simp_all add: trade_handler_def aggtrade_handler_def ticker_handler_def put_nowait_def)

text \<open>
  C7 at a message of another type: a message tagged \<^verbatim>\<open>error\<close>, which is no trade,
  aggregated trade or ticker event, is put on the trade queue, on the aggregated-trade
  queue and on the ticker queue by their handlers; the depth handler drops it.
\<close>

theorem handlers_enqueue_foreign_event:
  "trade_handler []
     \<lparr>tm_e = ''error'', tm_p = 0, tm_q = 0, tm_m = False, tm_T = 0\<rparr>
     = ([\<lparr>tm_e = ''error'', tm_p = 0, tm_q = 0, tm_m = False, tm_T = 0\<rparr>], [])
   \<and> aggtrade_handler []
     \<lparr>tm_e = ''error'', tm_p = 0, tm_q = 0, tm_m = False, tm_T = 0\<rparr>
     = ([\<lparr>tm_e = ''error'', tm_p = 0, tm_q = 0, tm_m = False, tm_T = 0\<rparr>], [])
   \<and> ticker_handler [] \<lparr>km_e = ''error'', km_P = None\<rparr>
     = ([\<lparr>km_e = ''error'', km_P = None\<rparr>], [])
   \<and> depth_handler [] \<lparr>dm_e = ''error'', dm_b = [], dm_a = [], dm_u = 0\<rparr> = ([], [])"
  by (simp add: trade_handler_def aggtrade_handler_def ticker_handler_def depth_handler_def
        put_nowait_def MAX_QUEUE_def)

subsection \<open>The decision function\<close>

text \<open>With an empty order-book frame or an empty trades frame the signal is HOLD.\<close>

lemma generate_signal_empty_book_or_trades:
  "frame_empty df \<or> frame_empty trades_df
     \<Longrightarrow> generate_signal df trades_df volume_df ticker_data = Inr HOLD"
  by (simp add: generate_signal_def)

text \<open>
  C6 at an empty volume frame: with one order-book level, one trade and the frame of an
  empty list of buckets (\<^verbatim>\<open>pd.DataFrame([])\<close>, no column), \<^verbatim>\<open>generate_signal\<close>
  raises \<^verbatim>\<open>KeyError\<close> where it reads \<^verbatim>\<open>volume_df["volume"]\<close>; it does not return
  HOLD. \<^verbatim>\<open>volume_trend\<close>, on the same frame, returns 0.
\<close>

theorem generate_signal_empty_volume_raises:
  "generate_signal
     \<lparr>columns = [''price'', ''bid_qty'', ''ask_price'', ''ask_qty''],
      rows = [\<lparr>lr_price = 100, lr_bid_qty = 2, lr_ask_price = 101, lr_ask_qty = 3\<rparr>]\<rparr>
     (DataFrame trade_keys
        [\<lparr>t_price = 100.5, t_qty = 1, t_is_buyer_maker = False, t_time = 0, t_side = ''BUY''\<rparr>])
     (DataFrame bucket_keys []) 1.5
   = Inl KeyError
   \<and> frame_empty (DataFrame bucket_keys [])
   \<and> volume_trend (DataFrame bucket_keys []) = 0"
  by (simp add: generate_signal_def frame_empty_def DataFrame_def trade_keys_def bucket_keys_def
        order_book_pressure_def trade_dominance_def side_qty_sum_def getcol_def bind_err_def
        divide_sums_def volume_trend_def)

text \<open>
  C10. On an order-book frame with the two quantity columns whose ask quantities sum
  to zero, \<^verbatim>\<open>order_book_pressure\<close> returns 1. On a trades frame that is empty, or has
  the columns \<^verbatim>\<open>side\<close> and \<^verbatim>\<open>qty\<close> and a zero sum of SELL quantities,
  \<^verbatim>\<open>trade_dominance\<close> returns 1. On no frame does either metric divide by zero.
\<close>

theorem ratio_metrics_neutral:
  "(''bid_qty'' \<in> set (columns df) \<and> ''ask_qty'' \<in> set (columns df)
      \<and> sum_list (map lr_ask_qty (rows df)) = 0
      \<longrightarrow> order_book_pressure df = Inr 1)
   \<and> (frame_empty trades_df \<longrightarrow> trade_dominance trades_df = Inr 1)
   \<and> (''side'' \<in> set (columns trades_df) \<and> ''qty'' \<in> set (columns trades_df)
      \<and> sum_list (map t_qty (filter (\<lambda>tr. t_side tr = ''SELL'') (rows trades_df))) = 0
      \<longrightarrow> trade_dominance trades_df = Inr 1)
   \<and> order_book_pressure df \<noteq> Inl ZeroDivisionError
   \<and> trade_dominance trades_df \<noteq> Inl ZeroDivisionError"
  by (simp add: order_book_pressure_def trade_dominance_def side_qty_sum_def getcol_def
        bind_err_def divide_sums_def Let_def)

theorem ratio_metrics_neutral_witness:
  "order_book_pressure
     \<lparr>columns = [''price'', ''bid_qty'', ''ask_price'', ''ask_qty''],
      rows = [\<lparr>lr_price = 100, lr_bid_qty = 2, lr_ask_price = 101, lr_ask_qty = 0\<rparr>]\<rparr> = Inr 1
   \<and> frame_empty (DataFrame trade_keys ([] :: trade list))
   \<and> trade_dominance (DataFrame trade_keys []) = Inr 1
   \<and> trade_dominance (DataFrame trade_keys
        [\<lparr>t_price = 100.5, t_qty = 1, t_is_buyer_maker = False, t_time = 0, t_side = ''BUY''\<rparr>])
      = Inr 1"
  using ratio_metrics_neutral
          [of "\<lparr>columns = [''price'', ''bid_qty'', ''ask_price'', ''ask_qty''],
                rows = [\<lparr>lr_price = 100, lr_bid_qty = 2, lr_ask_price = 101, lr_ask_qty = 0\<rparr>]\<rparr>"
              "DataFrame trade_keys []"]
        ratio_metrics_neutral
          [of "\<lparr>columns = [''price'', ''bid_qty'', ''ask_price'', ''ask_qty''],
                rows = [\<lparr>lr_price = 100, lr_bid_qty = 2, lr_ask_price = 101, lr_ask_qty = 0\<rparr>]\<rparr>"
              "DataFrame trade_keys
                 [\<lparr>t_price = 100.5, t_qty = 1, t_is_buyer_maker = False, t_time = 0,
                   t_side = ''BUY''\<rparr>]"]
  by (simp add: DataFrame_def trade_keys_def frame_empty_def)

subsection \<open>The frame the trading loop builds\<close>

lemma level_frame_cols:
  assumes "length b = length a" and "length c = length a" and "length d = length a"
  shows "level_frame a b c d = Inr df \<Longrightarrow>
           columns df = [''price'', ''bid_qty'', ''ask_price'', ''ask_qty'']
           \<and> map lr_price (rows df) = a \<and> map lr_bid_qty (rows df) = b
           \<and> map lr_ask_price (rows df) = c \<and> map lr_ask_qty (rows df) = d"
  using assms by (auto simp: level_frame_def o_def map_nth intro: nth_equalityI)

text \<open>
  C9. In an iteration, the frame passed to \<^verbatim>\<open>generate_signal\<close> has as many rows as
  the shorter of the snapshot's two sides has levels; its bid columns hold that many
  first bid levels and its ask columns that many first ask levels, in the order of the
  snapshot's dictionaries. The further levels of the deeper side are not in it.
\<close>

theorem loop_frame_truncated:
  "\<exists>df. decision_frame snap = Inr df
      \<and> loop_signal snap =
          generate_signal df (DataFrame trade_keys (s_trades snap))
            (DataFrame bucket_keys (s_volume_history snap)) (s_ticker_pct snap)
      \<and> length (rows df) = min (length (s_bids snap)) (length (s_asks snap))
      \<and> getcol df ''price'' lr_price
          = Inr (map fst (take (min (length (s_bids snap)) (length (s_asks snap))) (s_bids snap)))
      \<and> getcol df ''bid_qty'' lr_bid_qty
          = Inr (map snd (take (min (length (s_bids snap)) (length (s_asks snap))) (s_bids snap)))
      \<and> getcol df ''ask_price'' lr_ask_price
          = Inr (map fst (take (min (length (s_bids snap)) (length (s_asks snap))) (s_asks snap)))
      \<and> getcol df ''ask_qty'' lr_ask_qty
          = Inr (map snd (take (min (length (s_bids snap)) (length (s_asks snap))) (s_asks snap)))"
proof -
  let ?n = "min (length (s_bids snap)) (length (s_asks snap))"
  let ?b = "take ?n (s_bids snap)" and ?a = "take ?n (s_asks snap)"
  have len: "length ?b = ?n" "length ?a = ?n" by simp_all
  obtain df where df: "level_frame (map fst ?b) (map snd ?b) (map fst ?a) (map snd ?a) = Inr df"
    using len by (simp add: level_frame_def)
  have d: "decision_frame snap = Inr df"
    using df by (simp add: decision_frame_def truncated_levels_def Let_def)
  have cols: "columns df = [''price'', ''bid_qty'', ''ask_price'', ''ask_qty'']
           \<and> map lr_price (rows df) = map fst ?b \<and> map lr_bid_qty (rows df) = map snd ?b
           \<and> map lr_ask_price (rows df) = map fst ?a \<and> map lr_ask_qty (rows df) = map snd ?a"
    using level_frame_cols [OF _ _ _ df] len by simp
  then have "length (map lr_price (rows df)) = ?n" using len by simp
  then have n: "length (rows df) = ?n" by simp
  show ?thesis
    using d cols n by (simp add: loop_signal_def bind_err_def getcol_def Let_def)
qed

subsection \<open>The consumers on objects and on contents\<close>

lemma contents_initial: "contents_of initial_store = initial_state"
  by (simp add: contents_of_def initial_store_def initial_state_def)

lemma store_ok_initial: "store_ok initial_store"
  by (simp add: store_ok_def initial_store_def)

lemma process_depth_obj_contents:
  assumes "store_ok st"
  shows "contents_of (process_depth_obj st msg) = process_depth (contents_of st) msg"
    and "store_ok (process_depth_obj st msg)"
  using assms
  by (auto simp: process_depth_obj_def process_depth_def contents_of_def store_ok_def Let_def)

lemma process_ticker_obj_contents:
  assumes "store_ok st"
  shows "contents_of (process_ticker_obj st msg) = process_ticker (contents_of st) msg"
    and "store_ok (process_ticker_obj st msg)"
  using assms
  by (auto simp: process_ticker_obj_def process_ticker_def contents_of_def store_ok_def)

lemma map_nth_append_old:
  "\<forall>a \<in> set as. a < length xs \<Longrightarrow> map (\<lambda>a. (xs @ ys) ! a) as = map (\<lambda>a. xs ! a) as"
  by (simp add: nth_append)

lemma map_nth_update_other:
  "b \<notin> set as \<Longrightarrow> map (\<lambda>a. xs[b := y] ! a) as = map (\<lambda>a. xs ! a) as"
  by (induction as) auto

lemma map_deque_append_new:
  assumes "\<forall>a \<in> set as. a < length xs"
  shows "map (\<lambda>a. (xs @ [y]) ! a) (deque_append n as (length xs))
           = deque_append n (map (\<lambda>a. xs ! a) as) y"
proof -
  have h: "map (\<lambda>a. (xs @ [y]) ! a) (as @ [length xs]) = map (\<lambda>a. xs ! a) as @ [y]"
    using assms by (simp add: map_nth_append_old)
  have "map (\<lambda>a. (xs @ [y]) ! a) (drop m (as @ [length xs]))
               = drop m (map (\<lambda>a. xs ! a) as @ [y])" for m
    by (simp only: drop_map [symmetric] h)
  then show ?thesis
    unfolding deque_append_def Let_def by (simp only: length_append length_map list.size)
qed

lemma update_volumes_locked_obj_contents:
  assumes "store_ok st"
  shows "contents_of (update_volumes_locked_obj st now) = update_volumes_locked (contents_of st) now"
    and "store_ok (update_volumes_locked_obj st now)"
proof -
  let ?vh = "list_objs st ! volume_at st"
  let ?cv = "sum_list (map t_qty (filter (\<lambda>tr. current_minute now \<le> t_time tr div 1000)
                       (map (\<lambda>a. trade_objs st ! a) (list_objs st ! trades_at st))))"
  have ok: "trades_at st < length (list_objs st)" "volume_at st < length (list_objs st)"
    "trades_at st \<noteq> volume_at st" "\<forall>a \<in> set ?vh. a < length (bucket_objs st)"
    "distinct ?vh"
    using assms by (simp_all add: store_ok_def)
  have cond: "(volume_history (contents_of st) \<noteq> []
                 \<and> b_time (last (volume_history (contents_of st))) = current_minute now)
              = (?vh \<noteq> [] \<and> b_time (bucket_objs st ! last ?vh) = current_minute now)"
    by (cases "?vh = []") (simp_all add: contents_of_def last_map)
  have tr: "trades (contents_of st) = map (\<lambda>a. trade_objs st ! a) (list_objs st ! trades_at st)"
    by (simp add: contents_of_def)
  show "contents_of (update_volumes_locked_obj st now)
          = update_volumes_locked (contents_of st) now"
  proof (cases "?vh \<noteq> [] \<and> b_time (bucket_objs st ! last ?vh) = current_minute now")
    case True
    then obtain as a where vh: "?vh = as @ [a]"
      by (cases ?vh rule: rev_cases) auto
    have a: "a \<notin> set as" "a < length (bucket_objs st)"
      using ok(4,5) by (simp_all add: vh)
    have l: "update_volumes_locked_obj st now
               = st\<lparr>bucket_objs := (bucket_objs st)
                    [a := (bucket_objs st ! a)\<lparr>b_volume := ?cv\<rparr>]\<rparr>"
      using True by (simp add: update_volumes_locked_obj_def Let_def vh)
    have r: "update_volumes_locked (contents_of st) now
               = (contents_of st)\<lparr>volume_history :=
                   butlast (volume_history (contents_of st))
                     @ [(last (volume_history (contents_of st)))\<lparr>b_volume := ?cv\<rparr>]\<rparr>"
      unfolding update_volumes_locked_def Let_def cond tr using True by simp
    show ?thesis
      unfolding l r using a by (simp add: contents_of_def vh map_nth_update_other)
  next
    case False
    have m: "map (\<lambda>a. (bucket_objs st @ [\<lparr>b_time = current_minute now, b_volume = ?cv\<rparr>]) ! a)
            (deque_append 20 ?vh (length (bucket_objs st)))
          = deque_append 20 (map (\<lambda>a. bucket_objs st ! a) ?vh)
              \<lparr>b_time = current_minute now, b_volume = ?cv\<rparr>"
      using ok(4) by (rule map_deque_append_new)
    have l: "update_volumes_locked_obj st now
               = st\<lparr>bucket_objs := bucket_objs st
                                   @ [\<lparr>b_time = current_minute now, b_volume = ?cv\<rparr>],
                    list_objs := (list_objs st)
                      [volume_at st := deque_append 20 ?vh (length (bucket_objs st))]\<rparr>"
      unfolding update_volumes_locked_obj_def Let_def by (simp only: False if_False)
    have r: "update_volumes_locked (contents_of st) now
               = (contents_of st)\<lparr>volume_history :=
                   deque_append 20 (volume_history (contents_of st))
                     \<lparr>b_time = current_minute now, b_volume = ?cv\<rparr>\<rparr>"
      unfolding update_volumes_locked_def Let_def cond tr by (simp only: False if_False)
    show ?thesis
      unfolding l r using ok(1-3) m by (simp add: contents_of_def)
  qed
  show "store_ok (update_volumes_locked_obj st now)"
  proof (cases "?vh \<noteq> [] \<and> b_time (bucket_objs st ! last ?vh) = current_minute now")
    case True
    then show ?thesis
      using assms by (simp add: update_volumes_locked_obj_def store_ok_def Let_def)
  next
    case False
    have "length (bucket_objs st) \<notin> set ?vh" using ok(4) by auto
    then have d: "distinct (deque_append 20 ?vh (length (bucket_objs st)))"
      using ok(5) by (auto simp: deque_append_def dest: in_set_dropD)
    have "\<forall>a \<in> set (deque_append 20 ?vh (length (bucket_objs st))).
            a < Suc (length (bucket_objs st))"
      using ok(4) by (auto simp: deque_append_def less_Suc_eq dest!: in_set_dropD)
    then show ?thesis
      using False assms d
      by (simp add: update_volumes_locked_obj_def store_ok_def Let_def)
  qed
qed

lemma process_trades_obj_contents:
  assumes "store_ok st"
  shows "contents_of (process_trades_obj st msg now) = process_trades (contents_of st) msg now"
    and "contents_of (process_trades_obj st msg now) = process_aggtrades (contents_of st) msg now"
    and "store_ok (process_trades_obj st msg now)"
proof -
  let ?tr = "list_objs st ! trades_at st"
  let ?st1 = "st\<lparr>trade_objs := trade_objs st @ [trade_of msg],
           list_objs := (list_objs st)
              [trades_at st := deque_append 100 ?tr (length (trade_objs st))]\<rparr>"
  have ok: "trades_at st < length (list_objs st)" "volume_at st < length (list_objs st)"
    "trades_at st \<noteq> volume_at st" "\<forall>a \<in> set ?tr. a < length (trade_objs st)"
    using assms by (simp_all add: store_ok_def)
  have in1: "\<forall>a \<in> set (deque_append 100 ?tr (length (trade_objs st))).
               a < Suc (length (trade_objs st))"
    using ok(4) by (auto simp: deque_append_def less_Suc_eq dest!: in_set_dropD)
  have ok1: "store_ok ?st1"
    using assms in1 by (simp add: store_ok_def)
  have "map (\<lambda>a. (trade_objs st @ [trade_of msg]) ! a)
          (deque_append 100 ?tr (length (trade_objs st)))
        = deque_append 100 (map (\<lambda>a. trade_objs st ! a) ?tr) (trade_of msg)"
    using ok(4) by (rule map_deque_append_new)
  then have c1: "contents_of ?st1
       = (contents_of st)\<lparr>trades := deque_append 100 (trades (contents_of st)) (trade_of msg)\<rparr>"
    using ok(1-3) by (simp add: contents_of_def)
  show "contents_of (process_trades_obj st msg now) = process_trades (contents_of st) msg now"
    by (simp add: process_trades_obj_def process_trades_def
          update_volumes_locked_obj_contents(1) [OF ok1] c1)
  then show "contents_of (process_trades_obj st msg now)
               = process_aggtrades (contents_of st) msg now"
    by (simp add: process_trades_def process_aggtrades_def)
  show "store_ok (process_trades_obj st msg now)"
    by (simp add: process_trades_obj_def update_volumes_locked_obj_contents(2) [OF ok1])
qed

text \<open>
  The contents of the store after trade events on its objects are what the consumers
  compute on contents: the properties of the trade and bucket rings below hold of the
  store of objects.
\<close>

lemma run_trade_events_obj_contents:
  assumes "store_ok st"
  shows "contents_of (run_trade_events_obj st evs) = run_trade_events (contents_of st) evs
       \<and> store_ok (run_trade_events_obj st evs)"
proof (induction evs rule: rev_induct)
  case Nil
  then show ?case using assms by (simp add: run_trade_events_obj_def run_trade_events_def)
next
  case (snoc ev evs)
  obtain strm msg now where ev: "ev = (strm, msg, now)" by (cases ev)
  have ok: "store_ok (run_trade_events_obj st evs)" using snoc.IH by simp
  have "contents_of (run_trade_events_obj st (evs @ [ev]))
          = apply_trade_event (contents_of (run_trade_events_obj st evs)) ev"
    using process_trades_obj_contents(1,2) [OF ok, of msg now]
    by (cases strm) (simp_all add: run_trade_events_obj_def ev)
  moreover have "store_ok (run_trade_events_obj st (evs @ [ev]))"
    using process_trades_obj_contents(3) [OF ok, of msg now]
    by (simp add: run_trade_events_obj_def ev)
  ultimately show ?case using snoc.IH by (simp add: run_trade_events_def)
qed

subsection \<open>The snapshot\<close>

lemma example_store_reached:
  "process_trades_obj
     (process_depth_obj initial_store
        \<lparr>dm_e = ''depthUpdate'', dm_b = [(100, 2)], dm_a = [(101, 3)], dm_u = 7\<rparr>)
     \<lparr>tm_e = ''trade'', tm_p = 100.5, tm_q = 1, tm_m = False, tm_T = 60050\<rparr> 60.1
   = example_store"
  by (simp add: process_trades_obj_def process_depth_obj_def update_volumes_locked_obj_def
        initial_store_def example_store_def trade_of_def deque_append_def current_minute_def
        Let_def)

lemma store_ok_example: "store_ok example_store"
  by (simp add: store_ok_def example_store_def)

lemma get_snapshot_example:
  "get_snapshot example_store =
     (\<lparr>r_bids = 2, r_asks = 3, r_trades = 2, r_volume_history = 3, r_ticker_pct = 0\<rparr>,
      example_store\<lparr>dict_objs := [[(100, 2)], [(101, 3)], [(100, 2)], [(101, 3)]],
                    list_objs := [[0], [0], [0], [0]]\<rparr>)"
  by (simp add: get_snapshot_def example_store_def)

text \<open>
  C3, as the source has it: \<^verbatim>\<open>dict(...)\<close> and \<^verbatim>\<open>list(...)\<close> copy one level. For a
  well-formed store, a snapshot taken of it and a second one taken with no write in
  between: taking the snapshot leaves the contents of the store as they were; the
  snapshot holds those contents; whatever is written to one of the snapshot's two
  dictionaries or two lists (any new contents of the object), the contents of the store
  stay the same; and the two snapshots hold equal values. The ticker is a number held by
  the snapshot itself. The trade and bucket dictionaries are not copied: the snapshot's
  lists refer to the store's own.
\<close>

theorem get_snapshot_copies_containers:
  assumes "store_ok st" and "get_snapshot st = (snap, st1)"
    and "get_snapshot st1 = (snap2, st2)"
  shows "contents_of st1 = contents_of st
       \<and> snapshot_value st1 snap =
           \<lparr>s_bids = bids (contents_of st), s_asks = asks (contents_of st),
            s_trades = trades (contents_of st),
            s_volume_history = volume_history (contents_of st),
            s_ticker_pct = ticker_pct (contents_of st)\<rparr>
       \<and> contents_of (write_dict st1 (r_bids snap) d) = contents_of st
       \<and> contents_of (write_dict st1 (r_asks snap) d) = contents_of st
       \<and> contents_of (write_list st1 (r_trades snap) l) = contents_of st
       \<and> contents_of (write_list st1 (r_volume_history snap) l) = contents_of st
       \<and> snapshot_value st2 snap2 = snapshot_value st2 snap"
proof -
  have ok: "bids_at st < length (dict_objs st)" "asks_at st < length (dict_objs st)"
    "trades_at st < length (list_objs st)" "volume_at st < length (list_objs st)"
    using assms(1) by (simp_all add: store_ok_def)
  have s1: "snap = \<lparr>r_bids = length (dict_objs st), r_asks = Suc (length (dict_objs st)),
                    r_trades = length (list_objs st),
                    r_volume_history = Suc (length (list_objs st)),
                    r_ticker_pct = o_ticker_pct st\<rparr>"
    and st1: "st1 = st\<lparr>dict_objs := dict_objs st
                          @ [dict_objs st ! bids_at st, dict_objs st ! asks_at st],
                       list_objs := list_objs st
                          @ [list_objs st ! trades_at st, list_objs st ! volume_at st]\<rparr>"
    using assms(2) by (simp_all add: get_snapshot_def)
  have s2: "snap2 = \<lparr>r_bids = length (dict_objs st1), r_asks = Suc (length (dict_objs st1)),
                     r_trades = length (list_objs st1),
                     r_volume_history = Suc (length (list_objs st1)),
                     r_ticker_pct = o_ticker_pct st1\<rparr>"
    and st2: "st2 = st1\<lparr>dict_objs := dict_objs st1
                          @ [dict_objs st1 ! bids_at st1, dict_objs st1 ! asks_at st1],
                        list_objs := list_objs st1
                          @ [list_objs st1 ! trades_at st1, list_objs st1 ! volume_at st1]\<rparr>"
    using assms(3) by (simp_all add: get_snapshot_def)
  have a: "contents_of st1 = contents_of st"
    using ok by (simp add: st1 contents_of_def nth_append)
  have b: "snapshot_value st1 snap =
           \<lparr>s_bids = bids (contents_of st), s_asks = asks (contents_of st),
            s_trades = trades (contents_of st),
            s_volume_history = volume_history (contents_of st),
            s_ticker_pct = ticker_pct (contents_of st)\<rparr>"
    by (simp add: st1 s1 snapshot_value_def contents_of_def nth_append)
  have c: "contents_of (write_dict st1 (r_bids snap) d) = contents_of st"
    "contents_of (write_dict st1 (r_asks snap) d) = contents_of st"
    using ok by (simp_all add: st1 s1 contents_of_def write_dict_def nth_append)
  have e: "contents_of (write_list st1 (r_trades snap) l) = contents_of st"
    "contents_of (write_list st1 (r_volume_history snap) l) = contents_of st"
    using ok by (simp_all add: st1 s1 contents_of_def write_list_def nth_append)
  have f: "snapshot_value st2 snap2 = snapshot_value st2 snap"
    using ok by (simp add: st2 s2 st1 s1 snapshot_value_def nth_append)
  show ?thesis using a b c e f by simp
qed

theorem get_snapshot_copies_containers_witness:
  "store_ok example_store
   \<and> contents_of (write_dict (snd (get_snapshot example_store))
        (r_bids (fst (get_snapshot example_store))) [(1, 1)])
      = contents_of example_store
   \<and> contents_of (write_list (snd (get_snapshot example_store))
        (r_trades (fst (get_snapshot example_store))) [])
      = contents_of example_store
   \<and> snapshot_value (snd (get_snapshot (snd (get_snapshot example_store))))
        (fst (get_snapshot (snd (get_snapshot example_store))))
      = snapshot_value (snd (get_snapshot (snd (get_snapshot example_store))))
          (fst (get_snapshot example_store))
   \<and> s_trades (snapshot_value (snd (get_snapshot example_store))
        (fst (get_snapshot example_store)))
      = [\<lparr>t_price = 100.5, t_qty = 1, t_is_buyer_maker = False, t_time = 60050,
          t_side = ''BUY''\<rparr>]"
proof -
  have g1: "get_snapshot example_store
              = (fst (get_snapshot example_store), snd (get_snapshot example_store))"
    by simp
  have g2: "get_snapshot (snd (get_snapshot example_store))
              = (fst (get_snapshot (snd (get_snapshot example_store))),
                 snd (get_snapshot (snd (get_snapshot example_store))))"
    by simp
  have t: "trades (contents_of example_store)
             = [\<lparr>t_price = 100.5, t_qty = 1, t_is_buyer_maker = False, t_time = 60050,
                 t_side = ''BUY''\<rparr>]"
    by (simp add: contents_of_def example_store_def)
  from get_snapshot_copies_containers [OF store_ok_example g1 g2, of "[(1, 1)]" "[]"]
  show ?thesis using store_ok_example t by simp
qed

text \<open>
  C3 as stated fails: the copy is not deep. On the example store, a write into the
  first trade of a snapshot's trade list, or into the first bucket of its volume list,
  changes the contents of the store.
\<close>

theorem get_snapshot_counterexample:
  "store_ok example_store
   \<and> map t_qty (trades (contents_of (snd (get_snapshot example_store)))) = [1]
   \<and> map t_qty (trades (contents_of
        (set_snapshot_trade_qty (snd (get_snapshot example_store))
           (fst (get_snapshot example_store)) 0 5))) = [5]
   \<and> map b_volume (volume_history (contents_of (snd (get_snapshot example_store)))) = [1]
   \<and> map b_volume (volume_history (contents_of
        (set_snapshot_bucket_volume (snd (get_snapshot example_store))
           (fst (get_snapshot example_store)) 0 9))) = [9]"
  unfolding get_snapshot_example
  by (simp add: store_ok_def contents_of_def set_snapshot_trade_qty_def
        set_snapshot_bucket_volume_def write_trade_def write_bucket_def example_store_def)

text \<open>
  The sharing shows without any write by the reader: a snapshot of the example store
  holds the bucket of minute 60 with volume 1; after the consumer has processed a
  further trade of quantity 2 in that minute, the same snapshot holds it with volume 3.
\<close>

lemma snapshot_sees_later_volume:
  "s_volume_history (snapshot_value (snd (get_snapshot example_store))
       (fst (get_snapshot example_store))) = [\<lparr>b_time = 60, b_volume = 1\<rparr>]
   \<and> s_volume_history (snapshot_value
       (process_trades_obj (snd (get_snapshot example_store))
          \<lparr>tm_e = ''trade'', tm_p = 100.5, tm_q = 2, tm_m = False, tm_T = 60150\<rparr> 60.2)
       (fst (get_snapshot example_store))) = [\<lparr>b_time = 60, b_volume = 3\<rparr>]"
  unfolding get_snapshot_example
  by (simp add: snapshot_value_def process_trades_obj_def update_volumes_locked_obj_def
        example_store_def trade_of_def deque_append_def current_minute_def Let_def)

end
